theory Spec2Isabelle
  imports Main
begin

section \<open>The page as the script sees it\<close>

text \<open>
  \<^verbatim>\<open>frameworks.js\<close> reads and writes the generated page through the DOM and jQuery.
  The document is the list of its elements in document order; an element is addressed
  by its position, which no operation of the script changes. Of an element the script
  reads the tag name, the id, the class list, the \<^verbatim>\<open>data-*\<close> attributes, the
  \<^verbatim>\<open>checked\<close> property and the parent; it writes the class list and, through
  jQuery's \<^verbatim>\<open>show()\<close> and \<^verbatim>\<open>hide()\<close>, whether the element is displayed.
\<close>

record element =
  tag :: string
  el_id :: "string option"
  classes :: "string list"
  attrs :: "(string \<times> string) list"
  checked :: bool
  displayed :: bool
  parent :: "nat option"

type_synonym document = "element list"

text \<open>
  A JavaScript string that may be \<^verbatim>\<open>null\<close>: \<^verbatim>\<open>getAttribute\<close> returns
  \<^verbatim>\<open>null\<close> for an attribute the element does not have.
\<close>

type_synonym jsstring = "string option"

datatype error = TypeError | SyntaxError

text \<open>
  A run of a function of the script either returns (\<open>Done\<close>) or throws (\<open>Threw\<close>);
  both carry the state the run leaves behind, since what was written before a throw
  stays written. \<open>SyntaxError\<close> is the error jQuery throws on a selector it cannot
  read.
\<close>

datatype 'a outcome = Done 'a | Threw error 'a

subsection \<open>DOM and jQuery operations\<close>

definition getAttribute :: "string \<Rightarrow> element \<Rightarrow> jsstring" where
  "getAttribute name e = map_of (attrs e) name"

definition hasClass :: "string \<Rightarrow> element \<Rightarrow> bool" where
  "hasClass c e = (c \<in> set (classes e))"

definition addClass :: "string \<Rightarrow> element \<Rightarrow> element" where
  "addClass c e = (if c \<in> set (classes e) then e else e\<lparr>classes := classes e @ [c]\<rparr>)"

definition removeClass :: "string \<Rightarrow> element \<Rightarrow> element" where
  "removeClass c e = e\<lparr>classes := filter (\<lambda>x. x \<noteq> c) (classes e)\<rparr>"

definition jq_show :: "element \<Rightarrow> element" where
  "jq_show e = e\<lparr>displayed := True\<rparr>"

definition jq_hide :: "element \<Rightarrow> element" where
  "jq_hide e = e\<lparr>displayed := False\<rparr>"

fun first_index :: "('a \<Rightarrow> bool) \<Rightarrow> 'a list \<Rightarrow> nat option" where
  "first_index P [] = None"
| "first_index P (x # xs) = (if P x then Some 0 else map_option Suc (first_index P xs))"

text \<open>\<^verbatim>\<open>document.getElementById(i)\<close>: the first element with that id, or \<^verbatim>\<open>null\<close>.\<close>

definition getElementById :: "string \<Rightarrow> document \<Rightarrow> nat option" where
  "getElementById i d = first_index (\<lambda>e. el_id e = Some i) d"

text \<open>
  \<^verbatim>\<open>$(".c").f()\<close> applies \<open>f\<close> to every element of class \<open>c\<close>;
  \<^verbatim>\<open>$("#i").f()\<close> applies it to the element \<^verbatim>\<open>getElementById\<close> finds, and
  to nothing when there is none.
\<close>

definition on_class :: "string \<Rightarrow> (element \<Rightarrow> element) \<Rightarrow> document \<Rightarrow> document" where
  "on_class c f d = map (\<lambda>e. if hasClass c e then f e else e) d"

definition on_id :: "string \<Rightarrow> (element \<Rightarrow> element) \<Rightarrow> document \<Rightarrow> document" where
  "on_id i f d = (case getElementById i d of None \<Rightarrow> d | Some k \<Rightarrow> d[k := f (d ! k)])"

subsection \<open>JavaScript strings and arrays\<close>

text \<open>
  \<^verbatim>\<open>s.split(",")\<close>: the pieces of \<open>s\<close> between the commas; the empty string
  has one piece, the empty string.
\<close>

fun split_on :: "char \<Rightarrow> string \<Rightarrow> string list" where
  "split_on c [] = [[]]"
| "split_on c (x # xs) =
     (if x = c then [] # split_on c xs
      else (case split_on c xs of [] \<Rightarrow> [[x]] | w # ws \<Rightarrow> (x # w) # ws))"

text \<open>
  \<^verbatim>\<open>a.indexOf(v)\<close> on an array of strings: the first position holding a value
  strictly equal to \<open>v\<close>, or \<open>-1\<close>. \<^verbatim>\<open>null\<close> is strictly equal to no string.
\<close>

fun indexOf_from :: "int \<Rightarrow> string list \<Rightarrow> jsstring \<Rightarrow> int" where
  "indexOf_from i [] v = - 1"
| "indexOf_from i (x # xs) v = (if Some x = v then i else indexOf_from (i + 1) xs v)"

definition indexOf :: "string list \<Rightarrow> jsstring \<Rightarrow> int" where
  "indexOf xs v = indexOf_from 0 xs v"

text \<open>\<^verbatim>\<open>"lit" + v\<close>: string concatenation writes \<^verbatim>\<open>null\<close> as the four letters.\<close>

definition js_concat :: "string \<Rightarrow> jsstring \<Rightarrow> string" where
  "js_concat s v = s @ (case v of None \<Rightarrow> ''null'' | Some t \<Rightarrow> t)"

subsection \<open>jQuery selectors\<close>

text \<open>
  Line 33 hands jQuery a selector put together from a platform tag. What jQuery does
  with it is written out here for the strings made of ASCII letters, digits,
  \<^verbatim>\<open>_\<close>, \<^verbatim>\<open>-\<close>, spaces, \<^verbatim>\<open>.\<close> and \<^verbatim>\<open>#\<close>: such a string is a chain of
  compound selectors separated by spaces (the descendant combinator), each compound an
  optional tag name followed by \<^verbatim>\<open>.class\<close> and \<^verbatim>\<open>#id\<close> parts. A \<^verbatim>\<open>.\<close> or
  \<^verbatim>\<open>#\<close> with no name after it is a syntax error, on which jQuery throws.
\<close>

definition class_name_char :: "char \<Rightarrow> bool" where
  "class_name_char c =
     (let n = of_char c :: nat in
        (48 \<le> n \<and> n \<le> 57) \<or> (65 \<le> n \<and> n \<le> 90) \<or> (97 \<le> n \<and> n \<le> 122)
        \<or> n = 95 \<or> n = 45)"

definition simple_class_selector :: "string \<Rightarrow> bool" where
  "simple_class_selector name = (name \<noteq> [] \<and> list_all class_name_char name)"

definition modelled_selector_char :: "char \<Rightarrow> bool" where
  "modelled_selector_char c =
     (class_name_char c \<or> c = CHR '' '' \<or> c = CHR ''.'' \<or> c = CHR ''#'')"

datatype simple_selector = TypeSel string | ClassSel string | IdSel string

datatype opener = AtStart | AfterDot | AfterHash

fun close_name :: "opener \<Rightarrow> string \<Rightarrow> simple_selector list option" where
  "close_name AtStart name = Some (if name = [] then [] else [TypeSel name])"
| "close_name AfterDot name = (if name = [] then None else Some [ClassSel name])"
| "close_name AfterHash name = (if name = [] then None else Some [IdSel name])"

text \<open>One compound selector: the name read so far and what opened it.\<close>

fun scan_compound :: "opener \<Rightarrow> string \<Rightarrow> string \<Rightarrow> simple_selector list option" where
  "scan_compound opn name [] = close_name opn name"
| "scan_compound opn name (c # cs) =
     (if c = CHR ''.'' \<or> c = CHR ''#''
      then (case close_name opn name of
              None \<Rightarrow> None
            | Some parts \<Rightarrow>
                map_option (\<lambda>r. parts @ r)
                  (scan_compound (if c = CHR ''.'' then AfterDot else AfterHash) [] cs))
      else scan_compound opn (name @ [c]) cs)"

fun parse_compounds :: "string list \<Rightarrow> simple_selector list list option" where
  "parse_compounds [] = Some []"
| "parse_compounds (w # ws) =
     (case scan_compound AtStart [] w of
        None \<Rightarrow> None
      | Some c \<Rightarrow> map_option (\<lambda>r. c # r) (parse_compounds ws))"

definition parse_selector :: "string \<Rightarrow> simple_selector list list option" where
  "parse_selector s = parse_compounds (filter (\<lambda>w. w \<noteq> []) (split_on CHR '' '' s))"

definition ascii_lower :: "char \<Rightarrow> char" where
  "ascii_lower c =
     (let n = of_char c :: nat in if 65 \<le> n \<and> n \<le> 90 then char_of (n + 32) else c)"

fun matches_simple :: "simple_selector \<Rightarrow> element \<Rightarrow> bool" where
  "matches_simple (TypeSel t) e = (tag e = map ascii_lower t)"
| "matches_simple (ClassSel c) e = hasClass c e"
| "matches_simple (IdSel i) e = (el_id e = Some i)"

text \<open>The proper ancestors of an element, nearest first; the walk is bounded.\<close>

fun ancestors :: "nat \<Rightarrow> document \<Rightarrow> nat \<Rightarrow> nat list" where
  "ancestors 0 d k = []"
| "ancestors (Suc n) d k =
     (if k < length d
      then (case parent (d ! k) of
              None \<Rightarrow> []
            | Some q \<Rightarrow> if q < length d then q # ancestors n d q else [])
      else [])"

text \<open>
  An element matches a chain, given last compound first, when it matches the last
  compound and one of its ancestors matches the rest.
\<close>

fun matches_chain :: "document \<Rightarrow> simple_selector list list \<Rightarrow> nat \<Rightarrow> bool" where
  "matches_chain d [] k = True"
| "matches_chain d [c] k = list_all (\<lambda>s. matches_simple s (d ! k)) c"
| "matches_chain d (c # rest) k =
     (list_all (\<lambda>s. matches_simple s (d ! k)) c
      \<and> list_ex (matches_chain d rest) (ancestors (length d) d k))"

text \<open>
  What jQuery does with every other selector (attribute selectors, pseudo-classes,
  escapes, the other combinators, characters outside ASCII) is not part of this
  repository; it is a parameter of the run: the positions of the elements found, or
  \<open>None\<close> when jQuery throws on the selector.
\<close>

type_synonym selector_engine = "string \<Rightarrow> document \<Rightarrow> nat list option"

definition jq_find :: "selector_engine \<Rightarrow> string \<Rightarrow> document \<Rightarrow> nat list option" where
  "jq_find jq s d =
     (if list_all modelled_selector_char s
      then (case parse_selector s of
              None \<Rightarrow> None
            | Some chain \<Rightarrow>
                if chain = [] then Some []
                else Some (filter (matches_chain d (rev chain)) [0..<length d]))
      else jq s d)"

text \<open>\<^verbatim>\<open>$(sel).f()\<close> for the elements found.\<close>

definition on_found :: "nat list \<Rightarrow> (element \<Rightarrow> element) \<Rightarrow> document \<Rightarrow> document" where
  "on_found found f d = map (\<lambda>k. if k \<in> set found then f (d ! k) else d ! k) [0..<length d]"

section \<open>updateMaintainers\<close>

definition updateMaintainers :: "document \<Rightarrow> document outcome" where
  "updateMaintainers d =
     (case getElementById ''showMaintainers'' d of
        None \<Rightarrow> Threw TypeError d
      | Some k \<Rightarrow>
          if checked (d ! k)
          then Done (on_class ''framework-maintainer-column'' jq_show d)
          else Done (on_class ''framework-maintainer-column'' jq_hide d))"

section \<open>updatePlatforms\<close>

text \<open>
  Lines 23 to 30: the \<^verbatim>\<open>data-platform\<close> values of the checked elements of class
  \<^verbatim>\<open>platform-checkbox\<close>, in document order.
\<close>

fun collect_wanted :: "element list \<Rightarrow> jsstring list \<Rightarrow> jsstring list" where
  "collect_wanted [] wanted = wanted"
| "collect_wanted (checkbox # rest) wanted =
     (if checked checkbox
      then collect_wanted rest (wanted @ [getAttribute ''data-platform'' checkbox])
      else collect_wanted rest wanted)"

definition wantedPlatforms :: "document \<Rightarrow> jsstring list" where
  "wantedPlatforms d = collect_wanted (filter (hasClass ''platform-checkbox'') d) []"

text \<open>
  Lines 31 to 34: every element jQuery finds for a wanted platform's selector becomes
  "required". A selector jQuery rejects throws out of the loop, before line 35.
\<close>

fun mark_required :: "selector_engine \<Rightarrow> jsstring list \<Rightarrow> document \<Rightarrow> document outcome" where
  "mark_required jq [] d = Done d"
| "mark_required jq (platform # rest) d =
     (case jq_find jq (js_concat ''.framework-platform-'' platform) d of
        None \<Rightarrow> Threw SyntaxError d
      | Some found \<Rightarrow>
          mark_required jq rest (on_found found (addClass ''framework-platform-required'') d))"

text \<open>
  Lines 36 to 44, the body of the callback for one row. \<^verbatim>\<open>split\<close> is called on
  what \<^verbatim>\<open>getAttribute\<close> returned, so a row without the attribute throws.
\<close>

definition mark_row :: "jsstring list \<Rightarrow> element \<Rightarrow> error + element" where
  "mark_row wanted tr =
     (case getAttribute ''data-platforms'' tr of
        None \<Rightarrow> Inl TypeError
      | Some s \<Rightarrow>
          let fwPlatforms = split_on CHR '','' s;
              show_row = list_all (\<lambda>platform. indexOf fwPlatforms platform \<noteq> - 1) wanted
          in if show_row
             then Inr (addClass ''available'' (removeClass ''not-available'' tr))
             else Inr (addClass ''not-available'' (removeClass ''available'' tr)))"

text \<open>
  Line 35: the rows in document order. A throw leaves the rows before it marked and the
  rest of the document as it was.
\<close>

fun each_row :: "jsstring list \<Rightarrow> element list \<Rightarrow> document outcome" where
  "each_row wanted [] = Done []"
| "each_row wanted (e # es) =
     (if hasClass ''framework-row'' e
      then (case mark_row wanted e of
              Inl err \<Rightarrow> Threw err (e # es)
            | Inr e' \<Rightarrow> map_outcome (\<lambda>r. e' # r) (each_row wanted es))
      else map_outcome (\<lambda>r. e # r) (each_row wanted es))"

definition updatePlatforms :: "selector_engine \<Rightarrow> document \<Rightarrow> document outcome" where
  "updatePlatforms jq d =
     (case getElementById ''platform-filter'' d of
        None \<Rightarrow> Threw TypeError d
      | Some k \<Rightarrow>
          let doFilter = checked (d ! k);
              d1 = on_class ''framework-platform'' (removeClass ''framework-platform-required'') d
          in if doFilter
             then (let d2 = on_id ''platform-filter-group'' jq_show d1;
                       wanted = wantedPlatforms d2
                   in case mark_required jq wanted d2 of
                        Done d3 \<Rightarrow> each_row wanted d3
                      | Threw err d3 \<Rightarrow> Threw err d3)
             else Done (on_class ''framework-row''
                          (\<lambda>e. removeClass ''available'' (removeClass ''not-available'' e))
                          (on_id ''platform-filter-group'' jq_hide d1)))"

section \<open>The note tooltip\<close>

text \<open>
  The two globals of the script start out \<^verbatim>\<open>undefined\<close>; the "currently described
  element" is later an element or \<^verbatim>\<open>null\<close>.
\<close>

datatype jsref = Undefined | Null | Element nat

text \<open>The functions the script installs as callbacks, by what they are.\<close>

datatype handler = UpdateMaintainers | UpdatePlatforms | NoteLinkClicked

datatype callback = ClearDescribedElement

text \<open>
  Modelled from the spec: the tooltip widget \<^verbatim>\<open>NoteTip\<close> is defined outside
  \<^verbatim>\<open>frameworks.js\<close>. The specification gives it a construction, a settable
  \<^verbatim>\<open>onHide\<close> callback, \<^verbatim>\<open>setText(text)\<close>, \<^verbatim>\<open>show(anchorElement)\<close> and
  \<^verbatim>\<open>hide()\<close>; one instance is created, hidden, and reused for every note. It is
  either hidden or shown anchored to one element.
\<close>

record notetip =
  tip_text :: jsstring
  tip_anchor :: "nat option"
  onHide :: "callback option"

record page =
  doc :: document
  g_noteTip :: "notetip option"
  g_currentlyDescribedElement :: jsref
  click_handlers :: "(nat \<times> handler) list"

text \<open>Modelled from the spec: \<^verbatim>\<open>new NoteTip()\<close>, a hidden tooltip with no callback yet.\<close>

definition NoteTip_new :: notetip where
  "NoteTip_new = \<lparr>tip_text = None, tip_anchor = None, onHide = None\<rparr>"

text \<open>Modelled from the spec: \<^verbatim>\<open>NoteTip.setText\<close> sets the tooltip's content.\<close>

definition NoteTip_setText :: "jsstring \<Rightarrow> notetip \<Rightarrow> notetip" where
  "NoteTip_setText text t = t\<lparr>tip_text := text\<rparr>"

text \<open>Modelled from the spec: \<^verbatim>\<open>NoteTip.show\<close> shows the tooltip anchored to an element.\<close>

definition NoteTip_show :: "nat \<Rightarrow> notetip \<Rightarrow> notetip" where
  "NoteTip_show anchor t = t\<lparr>tip_anchor := Some anchor\<rparr>"

text \<open>Lines 53 to 55, the function assigned to \<^verbatim>\<open>onHide\<close>.\<close>

fun call_back :: "callback \<Rightarrow> page \<Rightarrow> page" where
  "call_back ClearDescribedElement p = p\<lparr>g_currentlyDescribedElement := Null\<rparr>"

text \<open>
  Modelled from the spec: \<^verbatim>\<open>NoteTip.hide\<close> hides the tooltip, and the tooltip's hide
  event runs the \<^verbatim>\<open>onHide\<close> callback when one is set.
\<close>

definition NoteTip_hide :: "notetip \<Rightarrow> page \<Rightarrow> page" where
  "NoteTip_hide t p =
     (let p1 = p\<lparr>g_noteTip := Some (t\<lparr>tip_anchor := None\<rparr>)\<rparr>
      in case onHide t of None \<Rightarrow> p1 | Some cb \<Rightarrow> call_back cb p1)"

text \<open>
  Lines 57 to 67, the click handler with \<^verbatim>\<open>this\<close> the clicked element. A method call
  on an \<^verbatim>\<open>undefined\<close> \<^verbatim>\<open>g_noteTip\<close> throws, after the assignment of line 61 in
  the second branch.
\<close>

definition note_click :: "nat \<Rightarrow> page \<Rightarrow> page outcome" where
  "note_click this p =
     (if g_currentlyDescribedElement p = Element this
      then (case g_noteTip p of
              None \<Rightarrow> Threw TypeError p
            | Some t \<Rightarrow> Done (NoteTip_hide t p))
      else (let p1 = p\<lparr>g_currentlyDescribedElement := Element this\<rparr>;
                text = getAttribute ''data-note'' (doc p1 ! this)
            in case g_noteTip p1 of
                 None \<Rightarrow> Threw TypeError p1
               | Some t \<Rightarrow> Done (p1\<lparr>g_noteTip := Some (NoteTip_show this (NoteTip_setText text t))\<rparr>)))"

subsection \<open>Binding handlers\<close>

definition select_id :: "string \<Rightarrow> document \<Rightarrow> nat list" where
  "select_id i d = (case getElementById i d of None \<Rightarrow> [] | Some k \<Rightarrow> [k])"

definition select_class :: "string \<Rightarrow> document \<Rightarrow> nat list" where
  "select_class c d = filter (\<lambda>k. hasClass c (d ! k)) [0..<length d]"

text \<open>
  \<^verbatim>\<open>$(".framework-platform > a")\<close>: the \<^verbatim>\<open>a\<close> elements whose parent has class
  \<^verbatim>\<open>framework-platform\<close>. Tag names are kept in lower case.
\<close>

definition select_note_links :: "document \<Rightarrow> nat list" where
  "select_note_links d =
     filter (\<lambda>k. tag (d ! k) = ''a'' \<and>
                 (case parent (d ! k) of
                    None \<Rightarrow> False
                  | Some q \<Rightarrow> q < length d \<and> hasClass ''framework-platform'' (d ! q)))
       [0..<length d]"

definition bind_click :: "nat list \<Rightarrow> handler \<Rightarrow> page \<Rightarrow> page" where
  "bind_click sel h p = p\<lparr>click_handlers := click_handlers p @ map (\<lambda>k. (k, h)) sel\<rparr>"

definition initNoteTip :: "page \<Rightarrow> page" where
  "initNoteTip p =
     (let p1 = p\<lparr>g_noteTip := Some (NoteTip_new\<lparr>onHide := Some ClearDescribedElement\<rparr>)\<rparr>
      in bind_click (select_note_links (doc p1)) NoteLinkClicked p1)"

section \<open>main\<close>

definition with_doc :: "page \<Rightarrow> document outcome \<Rightarrow> page outcome" where
  "with_doc p r = map_outcome (\<lambda>d. p\<lparr>doc := d\<rparr>) r"

definition main :: "page \<Rightarrow> page outcome" where
  "main p =
     (let p1 = bind_click (select_id ''showMaintainers'' (doc p)) UpdateMaintainers p;
          p2 = bind_click (select_id ''platform-filter'' (doc p1)) UpdatePlatforms p1;
          p3 = bind_click (select_class ''platform-checkbox'' (doc p2)) UpdatePlatforms p2;
          p4 = initNoteTip p3
      in with_doc p4 (updateMaintainers (doc p4)))"

text \<open>The page when the script has been loaded and \<^verbatim>\<open>main\<close> has not run yet.\<close>

definition page_loaded :: "document \<Rightarrow> page" where
  "page_loaded d =
     \<lparr>doc = d, g_noteTip = None, g_currentlyDescribedElement = Undefined, click_handlers = []\<rparr>"

section \<open>Runs of the script\<close>

text \<open>The state a run leaves behind, whether it returned or threw.\<close>

fun final_state :: "'a outcome \<Rightarrow> 'a option" where
  "final_state (Done a) = Some a"
| "final_state (Threw err a) = Some a"

text \<open>
  The events of the tooltip: a click on an element, which runs the note handler when it
  is bound there, and the tooltip's own hide event.
\<close>

datatype event = NoteLinkClick nat | TipHide

fun step :: "event \<Rightarrow> page \<Rightarrow> page outcome" where
  "step (NoteLinkClick e) p =
     (if (e, NoteLinkClicked) \<in> set (click_handlers p) then note_click e p else Done p)"
| "step TipHide p =
     (case g_noteTip p of None \<Rightarrow> Done p | Some t \<Rightarrow> Done (NoteTip_hide t p))"

fun run_events :: "event list \<Rightarrow> page \<Rightarrow> page option" where
  "run_events [] p = Some p"
| "run_events (ev # evs) p =
     (case final_state (step ev p) of None \<Rightarrow> None | Some p' \<Rightarrow> run_events evs p')"

text \<open>The page after page-ready and a sequence of tooltip events.\<close>

definition page_after :: "document \<Rightarrow> event list \<Rightarrow> page option" where
  "page_after d evs =
     (case final_state (main (page_loaded d)) of None \<Rightarrow> None | Some p \<Rightarrow> run_events evs p)"

text \<open>
  A click on a checkbox flips its \<^verbatim>\<open>checked\<close> property before the handlers run.
  \<open>updatePlatforms_runs\<close> is a sequence of such clicks, each followed by the run of
  \<^verbatim>\<open>updatePlatforms\<close> it triggers; a run that throws leaves its state
  (\<open>state_of\<close>) to the next. \<open>some_run_returns\<close> tells whether one of the runs
  returned.
\<close>

definition toggle_checked :: "nat \<Rightarrow> document \<Rightarrow> document" where
  "toggle_checked k d =
     (if k < length d then d[k := (d ! k)\<lparr>checked := \<not> checked (d ! k)\<rparr>] else d)"

fun state_of :: "'a outcome \<Rightarrow> 'a" where
  "state_of (Done a) = a"
| "state_of (Threw err a) = a"

fun returned :: "'a outcome \<Rightarrow> bool" where
  "returned (Done a) = True"
| "returned (Threw err a) = False"

fun updatePlatforms_runs :: "selector_engine \<Rightarrow> nat list \<Rightarrow> document \<Rightarrow> document" where
  "updatePlatforms_runs jq [] d = d"
| "updatePlatforms_runs jq (k # ks) d =
     updatePlatforms_runs jq ks (state_of (updatePlatforms jq (toggle_checked k d)))"

fun some_run_returns :: "selector_engine \<Rightarrow> nat list \<Rightarrow> document \<Rightarrow> bool" where
  "some_run_returns jq [] d = False"
| "some_run_returns jq (k # ks) d =
     (returned (updatePlatforms jq (toggle_checked k d))
      \<or> some_run_returns jq ks (state_of (updatePlatforms jq (toggle_checked k d))))"

subsection \<open>Clicks and the handlers bound by main\<close>

text \<open>
  A click on a checkbox at position \<open>k\<close>: the browser flips \<^verbatim>\<open>checked\<close>, then
  jQuery runs the handlers bound to the element in the order they were bound; a handler
  that throws ends the dispatch.
\<close>

fun run_handler :: "selector_engine \<Rightarrow> handler \<Rightarrow> nat \<Rightarrow> page \<Rightarrow> page outcome" where
  "run_handler jq UpdateMaintainers this p = with_doc p (updateMaintainers (doc p))"
| "run_handler jq UpdatePlatforms this p = with_doc p (updatePlatforms jq (doc p))"
| "run_handler jq NoteLinkClicked this p = note_click this p"

fun run_handlers :: "selector_engine \<Rightarrow> handler list \<Rightarrow> nat \<Rightarrow> page \<Rightarrow> page outcome" where
  "run_handlers jq [] this p = Done p"
| "run_handlers jq (h # hs) this p =
     (case run_handler jq h this p of
        Done p' \<Rightarrow> run_handlers jq hs this p'
      | Threw err p' \<Rightarrow> Threw err p')"

definition handlers_of :: "nat \<Rightarrow> page \<Rightarrow> handler list" where
  "handlers_of k p = map snd (filter (\<lambda>b. fst b = k) (click_handlers p))"

definition click_checkbox :: "selector_engine \<Rightarrow> nat \<Rightarrow> page \<Rightarrow> page outcome" where
  "click_checkbox jq k p =
     run_handlers jq (handlers_of k p) k (p\<lparr>doc := toggle_checked k (doc p)\<rparr>)"

fun checkbox_clicks :: "selector_engine \<Rightarrow> nat list \<Rightarrow> page \<Rightarrow> page" where
  "checkbox_clicks jq [] p = p"
| "checkbox_clicks jq (k # ks) p = checkbox_clicks jq ks (state_of (click_checkbox jq k p))"

section \<open>Properties the claims speak of\<close>

text \<open>Every row has the \<^verbatim>\<open>data-platforms\<close> attribute.\<close>

definition rows_have_platforms :: "document \<Rightarrow> bool" where
  "rows_have_platforms d =
     list_all (\<lambda>e. hasClass ''framework-row'' e \<longrightarrow> getAttribute ''data-platforms'' e \<noteq> None) d"

text \<open>
  Every wanted platform is a class-name suffix: ASCII letters, digits, \<^verbatim>\<open>_\<close> and
  \<^verbatim>\<open>-\<close>, so that the selector of line 33 names one class.
\<close>

definition wanted_selectable :: "document \<Rightarrow> bool" where
  "wanted_selectable d =
     list_all (\<lambda>p. simple_class_selector (js_concat ''framework-platform-'' p)) (wantedPlatforms d)"

text \<open>
  In the run of \<^verbatim>\<open>updatePlatforms\<close> on the page, jQuery accepts every selector of
  line 33: the loop of lines 31 to 34 runs through.
\<close>

definition selectors_accepted :: "selector_engine \<Rightarrow> document \<Rightarrow> bool" where
  "selectors_accepted jq d =
     returned (mark_required jq (wantedPlatforms d)
                 (on_id ''platform-filter-group'' jq_show
                    (on_class ''framework-platform''
                       (removeClass ''framework-platform-required'') d)))"

text \<open>
  The wanted platforms and a row's platforms in the words of the specification: the
  \<^verbatim>\<open>data-platform\<close> values of the checked platform checkboxes, and the pieces of
  the attribute between its commas, that is, any list of comma-free strings that gives
  the attribute back when joined with commas.
\<close>

definition wanted_tags :: "document \<Rightarrow> jsstring set" where
  "wanted_tags d =
     {getAttribute ''data-platform'' e | e. e \<in> set d \<and> hasClass ''platform-checkbox'' e \<and> checked e}"

fun comma_join :: "string list \<Rightarrow> string" where
  "comma_join [] = []"
| "comma_join [w] = w"
| "comma_join (w # ws) = w @ CHR '','' # comma_join ws"

definition comma_pieces :: "string \<Rightarrow> string list \<Rightarrow> bool" where
  "comma_pieces s ws =
     (ws \<noteq> [] \<and> list_all (\<lambda>w. CHR '','' \<notin> set w) ws \<and> comma_join ws = s)"

text \<open>The filter panel is not itself an element of the maintainer column.\<close>

definition panel_apart :: "document \<Rightarrow> bool" where
  "panel_apart d =
     (case getElementById ''platform-filter-group'' d of
        None \<Rightarrow> True
      | Some g \<Rightarrow> \<not> hasClass ''framework-maintainer-column'' (d ! g))"

text \<open>The platform-filter checkbox is there, and checked or not.\<close>

definition filter_enabled :: "document \<Rightarrow> bool" where
  "filter_enabled d =
     (case getElementById ''platform-filter'' d of None \<Rightarrow> False | Some k \<Rightarrow> checked (d ! k))"

definition filter_disabled :: "document \<Rightarrow> bool" where
  "filter_disabled d =
     (case getElementById ''platform-filter'' d of None \<Rightarrow> False | Some k \<Rightarrow> \<not> checked (d ! k))"

text \<open>No platform checkbox is checked.\<close>

definition no_platform_checked :: "document \<Rightarrow> bool" where
  "no_platform_checked d = list_all (\<lambda>e. hasClass ''platform-checkbox'' e \<longrightarrow> \<not> checked e) d"

text \<open>No row carries both marks.\<close>

definition rows_exclusive :: "document \<Rightarrow> bool" where
  "rows_exclusive d =
     list_all (\<lambda>e. hasClass ''framework-row'' e \<longrightarrow>
                     \<not> (hasClass ''available'' e \<and> hasClass ''not-available'' e)) d"

text \<open>
  A cell belongs to a platform when it carries the platform's class; the marker class
  \<^verbatim>\<open>framework-platform-required\<close> is not the class of a platform.
\<close>

definition cell_of_platform :: "jsstring \<Rightarrow> element \<Rightarrow> bool" where
  "cell_of_platform p e =
     (js_concat ''framework-platform-'' p \<noteq> ''framework-platform-required''
      \<and> hasClass (js_concat ''framework-platform-'' p) e)"

text \<open>
  The described-element reference and the tooltip agree: the reference is an element
  exactly when the tooltip is shown, and then the tooltip is anchored to that element.
\<close>

definition tip_consistent :: "page \<Rightarrow> bool" where
  "tip_consistent p =
     (case g_noteTip p of
        None \<Rightarrow> False
      | Some t \<Rightarrow>
          (case g_currentlyDescribedElement p of
             Element e \<Rightarrow> tip_anchor t = Some e
           | Null \<Rightarrow> tip_anchor t = None
           | Undefined \<Rightarrow> tip_anchor t = None))"

section \<open>Auxiliary definitions\<close>

text \<open>Lines 14 and 16 of an enabled run: markers cleared, panel shown.\<close>

definition prepare_enabled :: "document \<Rightarrow> document" where
  "prepare_enabled d =
     on_id ''platform-filter-group'' jq_show
       (on_class ''framework-platform'' (removeClass ''framework-platform-required'') d)"

text \<open>
  What the loop of lines 31 to 34 does to one element when every wanted platform is a
  class-name suffix.
\<close>

definition required_step :: "jsstring list \<Rightarrow> element \<Rightarrow> element" where
  "required_step wanted e =
     (if \<exists>p \<in> set wanted. hasClass (js_concat ''framework-platform-'' p) e
      then addClass ''framework-platform-required'' e else e)"

text \<open>What the loop of lines 35 to 45 does to one element when it does not throw there.\<close>

definition row_step :: "jsstring list \<Rightarrow> element \<Rightarrow> element" where
  "row_step wanted e =
     (if hasClass ''framework-row'' e
      then (case mark_row wanted e of Inl err \<Rightarrow> e | Inr e' \<Rightarrow> e')
      else e)"

text \<open>What the loop of lines 31 to 34 can have done to an element.\<close>

definition marked :: "element \<Rightarrow> element \<Rightarrow> bool" where
  "marked e e' = (e' = e \<or> e' = addClass ''framework-platform-required'' e)"

text \<open>Lines 14, 18 and 19: what a run in the disabled branch returns.\<close>

definition finish_disabled :: "document \<Rightarrow> document" where
  "finish_disabled d =
     on_class ''framework-row'' (\<lambda>e. removeClass ''available'' (removeClass ''not-available'' e))
       (on_id ''platform-filter-group'' jq_hide
          (on_class ''framework-platform'' (removeClass ''framework-platform-required'') d))"

text \<open>
  What holds of the page from \<^verbatim>\<open>initNoteTip\<close> on: the tooltip exists with its
  callback set, it agrees with the described element, the described element has the
  note handler, and handlers are bound to elements of the document.
\<close>

definition tip_invariant :: "page \<Rightarrow> bool" where
  "tip_invariant p =
     (tip_consistent p
      \<and> (case g_noteTip p of None \<Rightarrow> False | Some t \<Rightarrow> onHide t = Some ClearDescribedElement)
      \<and> (case g_currentlyDescribedElement p of
            Element e \<Rightarrow> (e, NoteLinkClicked) \<in> set (click_handlers p)
          | Null \<Rightarrow> True
          | Undefined \<Rightarrow> True)
      \<and> list_all (\<lambda>(k, h). k < length (doc p)) (click_handlers p))"

text \<open>
  What no handler changes of an element, and the state of the maintainer column: every
  element of the column is displayed exactly when the checkbox at \<open>m\<close> is checked.
\<close>

definition kept :: "element \<Rightarrow> element \<Rightarrow> bool" where
  "kept e e' =
     (el_id e' = el_id e \<and> checked e' = checked e
      \<and> hasClass ''framework-maintainer-column'' e' = hasClass ''framework-maintainer-column'' e)"

definition columns_follow :: "nat \<Rightarrow> document \<Rightarrow> bool" where
  "columns_follow m d =
     list_all (\<lambda>e. hasClass ''framework-maintainer-column'' e \<longrightarrow> displayed e = checked (d ! m)) d"

definition page_kept :: "document \<Rightarrow> page \<Rightarrow> page \<Rightarrow> bool" where
  "page_kept d p0 p =
     (click_handlers p = click_handlers p0
      \<and> length (doc p) = length d
      \<and> map el_id (doc p) = map el_id d
      \<and> map (hasClass ''framework-maintainer-column'') (doc p)
          = map (hasClass ''framework-maintainer-column'') d)"

text \<open>A small page for the examples.\<close>

definition el :: "string \<Rightarrow> string option \<Rightarrow> string list \<Rightarrow> (string \<times> string) list \<Rightarrow> bool
                  \<Rightarrow> nat option \<Rightarrow> element" where
  "el t i cs as c q =
     \<lparr>tag = t, el_id = i, classes = cs, attrs = as, checked = c, displayed = True, parent = q\<rparr>"

definition example_page :: document where
  "example_page =
     [el ''input'' (Some ''showMaintainers'') [] [] True None,
      el ''input'' (Some ''platform-filter'') [] [] True None,
      el ''div'' (Some ''platform-filter-group'') [] [] False None,
      el ''input'' None [''platform-checkbox''] [(''data-platform'', ''Linux'')] True (Some 2),
      el ''input'' None [''platform-checkbox''] [(''data-platform'', ''Windows'')] False (Some 2),
      el ''tr'' None [''framework-row''] [(''data-platforms'', ''Linux,Windows'')] False None,
      el ''td'' None [''framework-maintainer-column''] [] False (Some 5),
      el ''td'' None [''framework-platform'', ''framework-platform-Linux''] [] False (Some 5),
      el ''a'' None [] [(''data-note'', ''Needs X11'')] False (Some 7),
      el ''td'' None [''framework-platform'', ''framework-platform-Windows'',
                      ''framework-platform-required''] [] False (Some 5),
      el ''a'' None [] [(''data-note'', ''No printing'')] False (Some 9),
      el ''tr'' None [''framework-row'', ''available''] [(''data-platforms'', ''Windows'')] False None,
      el ''tr'' None [''framework-row'', ''available''] [(''data-platforms'', '''')] False None]"

text \<open>The same page with no platform checkbox checked, and with the filter switched off.\<close>

definition example_unchecked :: document where
  "example_unchecked = toggle_checked 3 example_page"

definition example_disabled :: document where
  "example_disabled = toggle_checked 1 example_page"

text \<open>
  A page with the filter off, stale marks of both kinds on every row and no
  \<^verbatim>\<open>data-platforms\<close> attribute anywhere.
\<close>

definition example_bare :: document where
  "example_bare =
     map (\<lambda>e. (addClass ''available'' (addClass ''not-available'' e))\<lparr>attrs := []\<rparr>)
       example_disabled"

text \<open>The example page with stale marks of both kinds on every row.\<close>

definition example_stale :: document where
  "example_stale = map (\<lambda>e. addClass ''available'' (addClass ''not-available'' e)) example_page"

text \<open>A selector engine that rejects whatever is left to it, for the examples.\<close>

definition no_extension :: selector_engine where
  "no_extension s d = None"

text \<open>
  A page where the platforms \<^verbatim>\<open>C#\<close> and \<^verbatim>\<open>Linux\<close> are both checked, with a row
  that has both, a Linux cell and a row with an empty attribute.
\<close>

definition page_csharp :: document where
  "page_csharp =
     [el ''input'' (Some ''platform-filter'') [] [] True None,
      el ''div'' (Some ''platform-filter-group'') [] [] False None,
      el ''input'' None [''platform-checkbox''] [(''data-platform'', ''C#'')] True (Some 1),
      el ''input'' None [''platform-checkbox''] [(''data-platform'', ''Linux'')] True (Some 1),
      el ''tr'' None [''framework-row''] [(''data-platforms'', ''C#,Linux'')] False None,
      el ''td'' None [''framework-platform'', ''framework-platform-Linux''] [] False (Some 4),
      el ''tr'' None [''framework-row''] [(''data-platforms'', '''')] False None]"

text \<open>A page where the only checked platform is the empty string.\<close>

definition page_empty_tag :: document where
  "page_empty_tag =
     [el ''input'' (Some ''platform-filter'') [] [] True None,
      el ''input'' None [''platform-checkbox''] [(''data-platform'', '''')] True None,
      el ''tr'' None [''framework-row'', ''not-available''] [(''data-platforms'', '''')] False None,
      el ''tr'' None [''framework-row''] [(''data-platforms'', ''Linux'')] False None]"

section \<open>Lemmas about the operations\<close>

subsection \<open>Lists, ids and classes\<close>

lemma first_index_Some:
  "first_index P xs = Some k \<Longrightarrow> k < length xs \<and> P (xs ! k)"
  by (induction xs arbitrary: k) (auto split: if_splits)

lemma getElementById_Some:
  "getElementById i d = Some k \<Longrightarrow> k < length d \<and> el_id (d ! k) = Some i"
  unfolding getElementById_def by (drule first_index_Some) simp

lemma first_index_cong:
  "map P xs = map Q ys \<Longrightarrow> first_index P xs = first_index Q ys"
proof (induction xs arbitrary: ys)
  case Nil
  then show ?case by simp
next
  case (Cons x xs)
  then obtain y ys' where "ys = y # ys'" by (cases ys) auto
  with Cons show ?case by auto
qed

lemma getElementById_cong:
  assumes "map el_id d' = map el_id d"
  shows "getElementById i d' = getElementById i d"
proof -
  have "map (\<lambda>x. x = Some i) (map el_id d') = map (\<lambda>x. x = Some i) (map el_id d)"
    using assms by simp
  then have "map (\<lambda>e. el_id e = Some i) d' = map (\<lambda>e. el_id e = Some i) d"
    by (simp add: comp_def)
  then show ?thesis
    unfolding getElementById_def by (rule first_index_cong)
qed

lemma length_on_class [simp]: "length (on_class c f d) = length d"
  by (simp add: on_class_def)

lemma nth_on_class:
  "i < length d \<Longrightarrow> on_class c f d ! i = (if hasClass c (d ! i) then f (d ! i) else d ! i)"
  by (simp add: on_class_def)

lemma length_on_id [simp]: "length (on_id i f d) = length d"
  by (simp add: on_id_def split: option.splits)

lemma nth_on_id:
  "j < length d \<Longrightarrow>
     on_id i f d ! j = (if getElementById i d = Some j then f (d ! j) else d ! j)"
  by (auto simp: on_id_def nth_list_update split: option.splits)

lemma length_on_found [simp]: "length (on_found found f d) = length d"
  by (simp add: on_found_def)

lemma nth_on_found:
  "i < length d \<Longrightarrow> on_found found f d ! i = (if i \<in> set found then f (d ! i) else d ! i)"
  by (simp add: on_found_def)

lemma on_found_select_class: "on_found (select_class c d) f d = on_class c f d"
  by (rule nth_equalityI) (simp_all add: nth_on_found nth_on_class select_class_def)

lemma map_on_class:
  "(\<And>e. g (f e) = g e) \<Longrightarrow> map g (on_class c f d) = map g d"
  by (simp add: on_class_def)

lemma map_on_id:
  assumes "\<And>e. g (f e) = g e"
  shows "map g (on_id i f d) = map g d"
proof (cases "getElementById i d")
  case None
  then show ?thesis by (simp add: on_id_def)
next
  case (Some k)
  have "map g (d[k := f (d ! k)]) = (map g d)[k := g (f (d ! k))]"
    by (simp add: map_update)
  also have "\<dots> = map g d"
    using getElementById_Some [OF Some] by (simp add: assms list_update_same_conv)
  finally show ?thesis using Some by (simp add: on_id_def)
qed

lemma hasClass_addClass [simp]: "hasClass c (addClass c' e) = (c = c' \<or> hasClass c e)"
  by (auto simp: hasClass_def addClass_def)

lemma hasClass_removeClass [simp]: "hasClass c (removeClass c' e) = (c \<noteq> c' \<and> hasClass c e)"
  by (auto simp: hasClass_def removeClass_def)

lemma addClass_idem: "hasClass c e \<Longrightarrow> addClass c e = e"
  by (simp add: hasClass_def addClass_def)

lemma getAttribute_addClass [simp]: "getAttribute n (addClass c e) = getAttribute n e"
  by (simp add: getAttribute_def addClass_def)

lemma getAttribute_removeClass [simp]: "getAttribute n (removeClass c e) = getAttribute n e"
  by (simp add: getAttribute_def removeClass_def)

lemma checked_addClass [simp]: "checked (addClass c e) = checked e"
  by (simp add: addClass_def)

lemma checked_removeClass [simp]: "checked (removeClass c e) = checked e"
  by (simp add: removeClass_def)

lemma displayed_addClass [simp]: "displayed (addClass c e) = displayed e"
  by (simp add: addClass_def)

lemma displayed_removeClass [simp]: "displayed (removeClass c e) = displayed e"
  by (simp add: removeClass_def)

lemma el_id_addClass [simp]: "el_id (addClass c e) = el_id e"
  by (simp add: addClass_def)

lemma el_id_removeClass [simp]: "el_id (removeClass c e) = el_id e"
  by (simp add: removeClass_def)

lemma jq_show_simps [simp]:
  "hasClass c (jq_show e) = hasClass c e" "getAttribute n (jq_show e) = getAttribute n e"
  "checked (jq_show e) = checked e" "displayed (jq_show e)" "el_id (jq_show e) = el_id e"
  by (simp_all add: jq_show_def hasClass_def getAttribute_def)

lemma jq_hide_simps [simp]:
  "hasClass c (jq_hide e) = hasClass c e" "getAttribute n (jq_hide e) = getAttribute n e"
  "checked (jq_hide e) = checked e" "\<not> displayed (jq_hide e)" "el_id (jq_hide e) = el_id e"
  by (simp_all add: jq_hide_def hasClass_def getAttribute_def)

subsection \<open>split and indexOf\<close>

lemma split_on_not_Nil [simp]: "split_on c s \<noteq> []"
  by (induction s) (auto split: list.splits)

lemma split_on_no_separator: "c \<notin> set w \<Longrightarrow> split_on c w = [w]"
  by (induction w) auto

lemma split_on_append:
  "c \<notin> set w \<Longrightarrow> split_on c (w @ c # rest) = w # split_on c rest"
  by (induction w) auto

lemma split_on_comma_join:
  "ws \<noteq> [] \<Longrightarrow> list_all (\<lambda>w. CHR '','' \<notin> set w) ws \<Longrightarrow>
     split_on CHR '','' (comma_join ws) = ws"
proof (induction ws rule: comma_join.induct)
  case 1
  then show ?case by simp
next
  case (2 w)
  then show ?case by (simp add: split_on_no_separator)
next
  case (3 w v vs)
  then show ?case by (simp add: split_on_append)
qed

lemma comma_pieces_split_on: "comma_pieces s ws \<Longrightarrow> split_on CHR '','' s = ws"
  by (auto simp: comma_pieces_def split_on_comma_join)

lemma split_on_pieces_free: "list_all (\<lambda>w. c \<notin> set w) (split_on c s)"
  by (induction s) (auto split: list.splits)

lemma comma_join_Cons: "ws \<noteq> [] \<Longrightarrow> comma_join (w # ws) = w @ CHR '','' # comma_join ws"
  by (cases ws) simp_all

lemma comma_join_split_on: "comma_join (split_on CHR '','' s) = s"
proof (induction s)
  case Nil
  then show ?case by simp
next
  case (Cons x xs)
  show ?case
  proof (cases "x = CHR '',''")
    case True
    then show ?thesis using Cons by (simp add: comma_join_Cons)
  next
    case False
    obtain w ws where sp: "split_on CHR '','' xs = w # ws"
      by (cases "split_on CHR '','' xs") simp_all
    have "comma_join ((x # w) # ws) = x # comma_join (w # ws)"
      by (cases ws) simp_all
    then show ?thesis using Cons False sp by simp
  qed
qed

lemma comma_pieces_of_split: "comma_pieces s (split_on CHR '','' s)"
  by (simp add: comma_pieces_def split_on_pieces_free comma_join_split_on)

lemma indexOf_from_found:
  "0 \<le> i \<Longrightarrow> (indexOf_from i xs v \<noteq> - 1) = (v \<in> Some ` set xs)"
proof (induction xs arbitrary: i)
  case Nil
  then show ?case by simp
next
  case (Cons x xs)
  then show ?case by (auto simp: image_iff)
qed

lemma indexOf_found: "(indexOf xs v \<noteq> - 1) = (v \<in> Some ` set xs)"
  by (simp add: indexOf_def indexOf_from_found)

lemma every_wanted_iff:
  "list_all (\<lambda>platform. indexOf fw platform \<noteq> - 1) wanted = (set wanted \<subseteq> Some ` set fw)"
  by (auto simp: list_all_iff indexOf_found)

subsection \<open>The wanted platforms\<close>

lemma collect_wanted_eq:
  "collect_wanted es acc = acc @ map (getAttribute ''data-platform'') (filter checked es)"
  by (induction es arbitrary: acc) auto

lemma wantedPlatforms_eq:
  "wantedPlatforms d =
     map (getAttribute ''data-platform'')
       (filter (\<lambda>e. hasClass ''platform-checkbox'' e \<and> checked e) d)"
  by (simp add: wantedPlatforms_def collect_wanted_eq conj_commute)

lemma set_wantedPlatforms: "set (wantedPlatforms d) = wanted_tags d"
  by (auto simp: wantedPlatforms_eq wanted_tags_def)

lemma wantedPlatforms_cong:
  assumes "map (\<lambda>e. (hasClass ''platform-checkbox'' e \<and> checked e, getAttribute ''data-platform'' e)) d'
         = map (\<lambda>e. (hasClass ''platform-checkbox'' e \<and> checked e, getAttribute ''data-platform'' e)) d"
  shows "wantedPlatforms d' = wantedPlatforms d"
proof -
  have "wantedPlatforms x =
          map snd (filter fst (map (\<lambda>e. (hasClass ''platform-checkbox'' e \<and> checked e,
                                           getAttribute ''data-platform'' e)) x))" for x
    by (simp add: wantedPlatforms_eq filter_map comp_def)
  with assms show ?thesis by simp
qed

subsection \<open>Selectors that name one class\<close>

lemma scan_compound_name:
  "CHR ''.'' \<notin> set cs \<Longrightarrow> CHR ''#'' \<notin> set cs \<Longrightarrow>
     scan_compound opn name cs = close_name opn (name @ cs)"
  by (induction cs arbitrary: name) auto

lemma class_name_char_not_special:
  "class_name_char c \<Longrightarrow> c \<noteq> CHR ''.'' \<and> c \<noteq> CHR ''#'' \<and> c \<noteq> CHR '' ''"
  by (auto simp: class_name_char_def)

lemma parse_selector_class:
  assumes "simple_class_selector name"
  shows "parse_selector (CHR ''.'' # name) = Some [[ClassSel name]]"
proof -
  have free: "CHR ''.'' \<notin> set name" "CHR ''#'' \<notin> set name" "CHR '' '' \<notin> set name"
    using assms class_name_char_not_special
    by (auto simp: simple_class_selector_def list_all_iff)
  have "split_on CHR '' '' (CHR ''.'' # name) = [CHR ''.'' # name]"
    using free(3) by (simp add: split_on_no_separator)
  moreover have "scan_compound AtStart [] (CHR ''.'' # name) = Some [ClassSel name]"
    using free(1,2) assms by (simp add: scan_compound_name simple_class_selector_def)
  ultimately show ?thesis by (simp add: parse_selector_def)
qed

lemma jq_find_class:
  assumes "simple_class_selector name"
  shows "jq_find jq (CHR ''.'' # name) d = Some (select_class name d)"
proof -
  have "list_all modelled_selector_char (CHR ''.'' # name)"
    using assms by (auto simp: simple_class_selector_def modelled_selector_char_def list_all_iff)
  moreover have "matches_chain d [[ClassSel name]] = (\<lambda>k. hasClass name (d ! k))"
    by (rule ext) simp
  ultimately show ?thesis
    using parse_selector_class [OF assms]
    by (simp add: jq_find_def select_class_def)
qed

lemma js_concat_dot:
  "js_concat ''.framework-platform-'' p = CHR ''.'' # js_concat ''framework-platform-'' p"
  by (simp add: js_concat_def)

subsection \<open>The loop of lines 31 to 34\<close>

lemma marked_refl [simp]: "marked e e"
  by (simp add: marked_def)

lemma marked_trans: "marked a b \<Longrightarrow> marked b c \<Longrightarrow> marked a c"
  by (auto simp: marked_def addClass_idem)

lemma marked_simps:
  assumes "marked e e'"
  shows "getAttribute n e' = getAttribute n e" "checked e' = checked e"
    "displayed e' = displayed e" "el_id e' = el_id e"
    "c \<noteq> ''framework-platform-required'' \<Longrightarrow> hasClass c e' = hasClass c e"
  using assms by (auto simp: marked_def)

lemma on_found_marked:
  "list_all2 marked d (on_found found (addClass ''framework-platform-required'') d)"
  by (simp add: list_all2_conv_all_nth nth_on_found marked_def)

lemma mark_required_marked:
  "list_all2 marked d (state_of (mark_required jq wanted d))"
proof (induction wanted arbitrary: d)
  case Nil
  then show ?case by (simp add: list_all2_refl)
next
  case (Cons p ps)
  show ?case
  proof (cases "jq_find jq (js_concat ''.framework-platform-'' p) d")
    case None
    then show ?thesis by (simp add: list_all2_refl)
  next
    case (Some found)
    let ?d1 = "on_found found (addClass ''framework-platform-required'') d"
    have "list_all2 marked d ?d1" by (rule on_found_marked)
    moreover have "list_all2 marked ?d1 (state_of (mark_required jq ps ?d1))"
      by (rule Cons.IH)
    ultimately have "list_all2 marked d (state_of (mark_required jq ps ?d1))"
      using marked_trans by (rule list_all2_trans [rotated])
    then show ?thesis using Some by simp
  qed
qed

lemma mark_required_error:
  "mark_required jq wanted d = Threw err d' \<Longrightarrow> err = SyntaxError"
  by (induction wanted arbitrary: d) (auto split: option.splits)

lemma mark_required_selectable:
  "list_all (\<lambda>p. simple_class_selector (js_concat ''framework-platform-'' p)) wanted \<Longrightarrow>
     mark_required jq wanted d = Done (map (required_step wanted) d)"
proof (induction wanted arbitrary: d)
  case Nil
  then show ?case by (simp add: required_step_def)
next
  case (Cons p ps)
  have "map (required_step ps) (on_class (js_concat ''framework-platform-'' p) (addClass ''framework-platform-required'') d)
        = map (required_step (p # ps)) d"
    by (auto simp: on_class_def required_step_def addClass_idem)
  with Cons show ?case
    by (simp add: js_concat_dot jq_find_class on_found_select_class)
qed

lemma hasClass_required_step:
  "hasClass c (required_step wanted e) =
     (hasClass c e \<or> (c = ''framework-platform-required'' \<and>
                       (\<exists>p \<in> set wanted. hasClass (js_concat ''framework-platform-'' p) e)))"
  by (auto simp: required_step_def)

subsection \<open>The loop over the rows\<close>

lemma mark_row_Some:
  "getAttribute ''data-platforms'' e = Some s \<Longrightarrow>
     mark_row wanted e =
       Inr (if set wanted \<subseteq> Some ` set (split_on CHR '','' s)
            then addClass ''available'' (removeClass ''not-available'' e)
            else addClass ''not-available'' (removeClass ''available'' e))"
  by (simp add: mark_row_def every_wanted_iff Let_def)

lemma mark_row_other_class:
  "mark_row wanted e = Inr e' \<Longrightarrow> c \<noteq> ''available'' \<Longrightarrow> c \<noteq> ''not-available'' \<Longrightarrow>
     hasClass c e' = hasClass c e"
  by (auto simp: mark_row_def Let_def split: option.splits if_splits)

lemma mark_row_exclusive:
  "mark_row wanted e = Inr e' \<Longrightarrow> \<not> (hasClass ''available'' e' \<and> hasClass ''not-available'' e')"
  by (auto simp: mark_row_def Let_def split: option.splits if_splits)

lemma mark_row_frame:
  "mark_row wanted e = Inr e' \<Longrightarrow>
     el_id e' = el_id e \<and> checked e' = checked e \<and> displayed e' = displayed e"
  by (auto simp: mark_row_def Let_def split: option.splits if_splits)

lemma each_row_Done:
  "rows_have_platforms d \<Longrightarrow> each_row wanted d = Done (map (row_step wanted) d)"
proof (induction d)
  case Nil
  then show ?case by simp
next
  case (Cons e es)
  then have "each_row wanted es = Done (map (row_step wanted) es)"
    by (simp add: rows_have_platforms_def)
  moreover have "hasClass ''framework-row'' e \<Longrightarrow> \<exists>s. getAttribute ''data-platforms'' e = Some s"
    using Cons.prems by (auto simp: rows_have_platforms_def)
  ultimately show ?case
    by (auto simp: row_step_def mark_row_Some)
qed

text \<open>What a run over the rows leaves behind, also when it throws.\<close>

lemma each_row_state:
  "list_all2 (\<lambda>e e'. e' = e \<or> (hasClass ''framework-row'' e \<and> mark_row wanted e = Inr e'))
     d (state_of (each_row wanted d))"
proof (induction d)
  case Nil
  then show ?case by simp
next
  case (Cons e es)
  have st: "state_of (map_outcome ((#) x) (each_row wanted es)) = x # state_of (each_row wanted es)"
    for x
    by (cases "each_row wanted es") auto
  show ?case
  proof (cases "hasClass ''framework-row'' e")
    case False
    then show ?thesis using Cons st by simp
  next
    case True
    show ?thesis
    proof (cases "mark_row wanted e")
      case (Inl err)
      then show ?thesis using True by (simp add: list_all2_refl)
    next
      case (Inr e')
      then show ?thesis using True Cons st by simp
    qed
  qed
qed

lemma each_row_Done_rows:
  "each_row wanted d = Done r \<Longrightarrow> rows_have_platforms d"
proof (induction d arbitrary: r)
  case Nil
  then show ?case by (simp add: rows_have_platforms_def)
next
  case (Cons e es)
  then show ?case
    by (cases "each_row wanted es")
       (auto simp: rows_have_platforms_def mark_row_def split: if_splits sum.splits option.splits)
qed

lemma rows_have_platforms_nth:
  "rows_have_platforms d \<Longrightarrow> i < length d \<Longrightarrow> hasClass ''framework-row'' (d ! i) \<Longrightarrow>
     \<exists>s. getAttribute ''data-platforms'' (d ! i) = Some s"
  by (auto simp: rows_have_platforms_def list_all_length)

lemma rows_have_platforms_cong:
  assumes "map (\<lambda>e. (hasClass ''framework-row'' e, getAttribute ''data-platforms'' e)) d'
         = map (\<lambda>e. (hasClass ''framework-row'' e, getAttribute ''data-platforms'' e)) d"
  shows "rows_have_platforms d' = rows_have_platforms d"
proof -
  have "rows_have_platforms x =
          list_all (\<lambda>(r, a). r \<longrightarrow> a \<noteq> None)
            (map (\<lambda>e. (hasClass ''framework-row'' e, getAttribute ''data-platforms'' e)) x)" for x
    by (simp add: rows_have_platforms_def list_all_iff)
  with assms show ?thesis by simp
qed

subsection \<open>The two branches of updatePlatforms\<close>

lemma length_prepare_enabled [simp]: "length (prepare_enabled d) = length d"
  by (simp add: prepare_enabled_def)

lemma map_prepare_enabled:
  assumes "\<And>e. g (jq_show e) = g e" "\<And>e. g (removeClass ''framework-platform-required'' e) = g e"
  shows "map g (prepare_enabled d) = map g d"
  unfolding prepare_enabled_def using assms by (simp add: map_on_id map_on_class)

lemma wantedPlatforms_prepare_enabled [simp]:
  "wantedPlatforms (prepare_enabled d) = wantedPlatforms d"
  by (rule wantedPlatforms_cong, rule map_prepare_enabled) simp_all

lemma hasClass_prepare_enabled:
  "i < length d \<Longrightarrow>
     hasClass c (prepare_enabled d ! i) =
       (hasClass c (d ! i) \<and> \<not> (c = ''framework-platform-required'' \<and> hasClass ''framework-platform'' (d ! i)))"
  by (auto simp: prepare_enabled_def nth_on_id nth_on_class)

lemma getAttribute_prepare_enabled:
  "i < length d \<Longrightarrow> getAttribute n (prepare_enabled d ! i) = getAttribute n (d ! i)"
  by (auto simp: prepare_enabled_def nth_on_id nth_on_class)

lemma rows_have_platforms_marked:
  assumes "list_all2 marked (prepare_enabled d) d3"
  shows "rows_have_platforms d3 = rows_have_platforms d"
proof (rule rows_have_platforms_cong)
  let ?g = "\<lambda>e. (hasClass ''framework-row'' e, getAttribute ''data-platforms'' e)"
  have "?g e' = ?g e" if "marked e e'" for e e'
    using marked_simps(1,5) [OF that] by simp
  then have "list_all2 (\<lambda>e e'. ?g e' = ?g e) (prepare_enabled d) d3"
    using assms by (rule list_all2_mono [rotated]) 
  then have "map ?g d3 = map ?g (prepare_enabled d)"
    by (induction rule: list_all2_induct) simp_all
  also have "\<dots> = map ?g d"
    by (rule map_prepare_enabled) simp_all
  finally show "map ?g d3 = map ?g d" .
qed

lemma updatePlatforms_enabled:
  assumes "filter_enabled d"
  shows "updatePlatforms jq d =
           (case mark_required jq (wantedPlatforms d) (prepare_enabled d) of
              Done d3 \<Rightarrow> each_row (wantedPlatforms d) d3
            | Threw err d3 \<Rightarrow> Threw err d3)"
  using assms
  by (auto simp: updatePlatforms_def filter_enabled_def prepare_enabled_def [symmetric] Let_def
           split: option.splits outcome.splits)

lemma selectors_accepted_Done:
  "selectors_accepted jq d \<Longrightarrow>
     \<exists>d3. mark_required jq (wantedPlatforms d) (prepare_enabled d) = Done d3
           \<and> list_all2 marked (prepare_enabled d) d3"
  using mark_required_marked [of "prepare_enabled d" jq "wantedPlatforms d"]
  by (cases "mark_required jq (wantedPlatforms d) (prepare_enabled d)")
     (auto simp: selectors_accepted_def prepare_enabled_def)

lemma wanted_selectable_accepted: "wanted_selectable d \<Longrightarrow> selectors_accepted jq d"
  by (simp add: selectors_accepted_def wanted_selectable_def mark_required_selectable)

lemma updatePlatforms_enabled_Done:
  assumes "filter_enabled d" "rows_have_platforms d" "selectors_accepted jq d"
  shows "\<exists>d3. list_all2 marked (prepare_enabled d) d3
              \<and> updatePlatforms jq d = Done (map (row_step (wantedPlatforms d)) d3)"
proof -
  obtain d3 where d3: "mark_required jq (wantedPlatforms d) (prepare_enabled d) = Done d3"
    "list_all2 marked (prepare_enabled d) d3"
    using selectors_accepted_Done [OF assms(3)] by blast
  have "rows_have_platforms d3"
    using assms(2) rows_have_platforms_marked [OF d3(2)] by simp
  then show ?thesis
    using assms(1) d3 by (auto simp: updatePlatforms_enabled each_row_Done)
qed

lemma updatePlatforms_disabled_eq:
  "filter_disabled d \<Longrightarrow> updatePlatforms jq d = Done (finish_disabled d)"
  by (auto simp: updatePlatforms_def filter_disabled_def finish_disabled_def Let_def
           split: option.splits)

lemma length_finish_disabled [simp]: "length (finish_disabled d) = length d"
  by (simp add: finish_disabled_def)

lemma hasClass_finish_disabled:
  "i < length d \<Longrightarrow>
     hasClass c (finish_disabled d ! i) =
       (hasClass c (d ! i)
        \<and> \<not> (c = ''framework-platform-required'' \<and> hasClass ''framework-platform'' (d ! i))
        \<and> \<not> ((c = ''available'' \<or> c = ''not-available'') \<and> hasClass ''framework-row'' (d ! i)))"
  by (auto simp: finish_disabled_def nth_on_id nth_on_class)

lemma displayed_finish_disabled:
  assumes "getElementById ''platform-filter-group'' d = Some g"
  shows "\<not> displayed (finish_disabled d ! g)"
proof -
  let ?d1 = "on_class ''framework-platform'' (removeClass ''framework-platform-required'') d"
  have "getElementById ''platform-filter-group'' ?d1 = Some g"
    using assms getElementById_cong [of ?d1 d "''platform-filter-group''"]
    by (simp add: map_on_class)
  then show ?thesis
    using getElementById_Some [OF assms]
    by (simp add: finish_disabled_def nth_on_class nth_on_id)
qed

lemma filter_cases:
  assumes "getElementById ''platform-filter'' d = Some k"
  shows "filter_enabled d = checked (d ! k)" "filter_disabled d = (\<not> checked (d ! k))"
  using assms by (simp_all add: filter_enabled_def filter_disabled_def)

lemma filter_trichotomy:
  "getElementById ''platform-filter'' d = None \<or> filter_enabled d \<or> filter_disabled d"
  by (auto simp: filter_enabled_def filter_disabled_def split: option.splits)

lemma updatePlatforms_no_checkbox:
  "getElementById ''platform-filter'' d = None \<Longrightarrow> updatePlatforms jq d = Threw TypeError d"
  by (simp add: updatePlatforms_def)

text \<open>The row at position \<open>i\<close> after a run that returns in the enabled branch.\<close>

lemma enabled_row_classes:
  fixes wanted :: "jsstring list"
  assumes "i < length d" "hasClass ''framework-row'' (d ! i)"
    "getAttribute ''data-platforms'' (d ! i) = Some s"
    "marked (prepare_enabled d ! i) e3"
  shows "hasClass ''available'' (row_step wanted e3)
           = (set wanted \<subseteq> Some ` set (split_on CHR '','' s))"
    and "hasClass ''not-available'' (row_step wanted e3)
           = (\<not> set wanted \<subseteq> Some ` set (split_on CHR '','' s))"
proof -
  have row: "hasClass ''framework-row'' e3"
    using assms(1,2) marked_simps(5) [OF assms(4)] by (simp add: hasClass_prepare_enabled)
  have att: "getAttribute ''data-platforms'' e3 = Some s"
    using assms(1,3) marked_simps(1) [OF assms(4)] by (simp add: getAttribute_prepare_enabled)
  have r: "row_step wanted e3 =
             (if set wanted \<subseteq> Some ` set (split_on CHR '','' s)
              then addClass ''available'' (removeClass ''not-available'' e3)
              else addClass ''not-available'' (removeClass ''available'' e3))"
    using row att by (simp add: row_step_def mark_row_Some)
  show "hasClass ''available'' (row_step wanted e3)
           = (set wanted \<subseteq> Some ` set (split_on CHR '','' s))"
    by (simp add: r)
  show "hasClass ''not-available'' (row_step wanted e3)
           = (\<not> set wanted \<subseteq> Some ` set (split_on CHR '','' s))"
    by (simp add: r)
qed

lemma enabled_run_rows:
  assumes "filter_enabled d" "rows_have_platforms d" "selectors_accepted jq d"
  shows "\<exists>d'. updatePlatforms jq d = Done d' \<and> length d' = length d \<and>
           (\<forall>i < length d. \<forall>s.
              hasClass ''framework-row'' (d ! i) \<longrightarrow>
              getAttribute ''data-platforms'' (d ! i) = Some s \<longrightarrow>
                (hasClass ''available'' (d' ! i)
                   \<longleftrightarrow> set (wantedPlatforms d) \<subseteq> Some ` set (split_on CHR '','' s))
              \<and> (hasClass ''not-available'' (d' ! i)
                   \<longleftrightarrow> \<not> set (wantedPlatforms d) \<subseteq> Some ` set (split_on CHR '','' s)))"
proof -
  obtain d3 where d3: "list_all2 marked (prepare_enabled d) d3"
    and run: "updatePlatforms jq d = Done (map (row_step (wantedPlatforms d)) d3)"
    using updatePlatforms_enabled_Done [OF assms] by blast
  have len: "length d3 = length d"
    using list_all2_lengthD [OF d3] by simp
  have m: "marked (prepare_enabled d ! i) (d3 ! i)" if "i < length d" for i
    using list_all2_nthD [OF d3, of i] that by simp
  show ?thesis
    using run len m by (simp add: enabled_row_classes)
qed

lemma no_platform_checked_wanted: "no_platform_checked d \<Longrightarrow> wantedPlatforms d = []"
  by (auto simp: no_platform_checked_def wantedPlatforms_eq list_all_iff filter_empty_conv)

lemma nothing_wanted_accepted: "wantedPlatforms d = [] \<Longrightarrow> selectors_accepted jq d"
  by (rule wanted_selectable_accepted) (simp add: wanted_selectable_def)

lemma comma_pieces_empty: "comma_pieces '''' ws \<Longrightarrow> ws = ['''']"
  using comma_pieces_split_on [of "''''" ws] by simp

subsection \<open>Rows never carry both marks\<close>

lemma rows_exclusive_nth:
  "rows_exclusive d =
     (\<forall>i < length d. hasClass ''framework-row'' (d ! i) \<longrightarrow>
        \<not> (hasClass ''available'' (d ! i) \<and> hasClass ''not-available'' (d ! i)))"
  by (simp add: rows_exclusive_def list_all_length)

lemma enabled_state:
  assumes "filter_enabled d"
  shows "\<exists>d3. list_all2 marked (prepare_enabled d) d3
           \<and> list_all2 (\<lambda>e e'. e' = e \<or> (hasClass ''framework-row'' e
                                          \<and> mark_row (wantedPlatforms d) e = Inr e'))
                d3 (state_of (updatePlatforms jq d))"
proof -
  let ?w = "wantedPlatforms d"
  let ?m = "mark_required jq ?w (prepare_enabled d)"
  have m: "list_all2 marked (prepare_enabled d) (state_of ?m)"
    by (rule mark_required_marked)
  show ?thesis
  proof (cases ?m)
    case (Done d3)
    then have "state_of (updatePlatforms jq d) = state_of (each_row ?w d3)"
      using assms by (simp add: updatePlatforms_enabled)
    then show ?thesis
      using m Done each_row_state [of ?w d3] by auto
  next
    case (Threw err d3)
    then have "state_of (updatePlatforms jq d) = d3"
      using assms by (simp add: updatePlatforms_enabled)
    then show ?thesis
      using m Threw by (auto simp: list_all2_refl intro!: exI [of _ d3])
  qed
qed

lemma updatePlatforms_keeps_exclusive:
  assumes "rows_exclusive d"
  shows "rows_exclusive (state_of (updatePlatforms jq d))"
  using filter_trichotomy [of d]
proof (elim disjE)
  assume "getElementById ''platform-filter'' d = None"
  then show ?thesis
    using assms by (simp add: updatePlatforms_no_checkbox)
next
  assume "filter_disabled d"
  then show ?thesis
    by (simp add: updatePlatforms_disabled_eq rows_exclusive_nth hasClass_finish_disabled)
next
  assume en: "filter_enabled d"
  let ?w = "wantedPlatforms d"
  let ?R = "\<lambda>e e'. e' = e \<or> (hasClass ''framework-row'' e \<and> mark_row ?w e = Inr e')"
  let ?d' = "state_of (updatePlatforms jq d)"
  obtain d3 where d3: "list_all2 marked (prepare_enabled d) d3" and rel: "list_all2 ?R d3 ?d'"
    using enabled_state [OF en] by blast
  have len3: "length d3 = length d"
    using list_all2_lengthD [OF d3] by simp
  have len: "length ?d' = length d"
    using list_all2_lengthD [OF rel] len3 by simp
  have "\<not> (hasClass ''available'' (?d' ! i) \<and> hasClass ''not-available'' (?d' ! i))"
    if i: "i < length d" and row: "hasClass ''framework-row'' (?d' ! i)" for i
  proof -
    have m: "marked (prepare_enabled d ! i) (d3 ! i)"
      using list_all2_nthD [OF d3, of i] i by simp
    have same: "hasClass c (d3 ! i) = hasClass c (d ! i)"
      if "c \<noteq> ''framework-platform-required''" for c
      using marked_simps(5) [OF m that] i that by (simp add: hasClass_prepare_enabled)
    have "?R (d3 ! i) (?d' ! i)"
      using list_all2_nthD [OF rel, of i] i len3 by simp
    then show ?thesis
    proof
      assume "?d' ! i = d3 ! i"
      then show ?thesis
        using assms i row same by (simp add: rows_exclusive_nth)
    next
      assume "hasClass ''framework-row'' (d3 ! i) \<and> mark_row ?w (d3 ! i) = Inr (?d' ! i)"
      then show ?thesis using mark_row_exclusive by blast
    qed
  qed
  then show ?thesis by (simp add: rows_exclusive_nth len)
qed

lemma updatePlatforms_Done_exclusive:
  assumes "updatePlatforms jq d = Done d'"
  shows "rows_exclusive d'"
  using filter_trichotomy [of d]
proof (elim disjE)
  assume "getElementById ''platform-filter'' d = None"
  then show ?thesis
    using assms by (simp add: updatePlatforms_no_checkbox)
next
  assume "filter_disabled d"
  then have "d' = finish_disabled d"
    using assms by (simp add: updatePlatforms_disabled_eq)
  then show ?thesis
    by (simp add: rows_exclusive_nth hasClass_finish_disabled)
next
  assume en: "filter_enabled d"
  let ?w = "wantedPlatforms d"
  obtain d3 where run: "each_row ?w d3 = Done d'"
    using en assms by (auto simp: updatePlatforms_enabled split: outcome.splits)
  then have all_attr: "rows_have_platforms d3"
    by (rule each_row_Done_rows)
  then have d': "d' = map (row_step ?w) d3"
    using run by (simp add: each_row_Done)
  have "\<not> (hasClass ''available'' (row_step ?w e) \<and> hasClass ''not-available'' (row_step ?w e))"
    if row: "hasClass ''framework-row'' (row_step ?w e)" and mem: "e \<in> set d3" for e
  proof (cases "hasClass ''framework-row'' e")
    case True
    then obtain s where "getAttribute ''data-platforms'' e = Some s"
      using all_attr mem by (auto simp: rows_have_platforms_def list_all_iff)
    then show ?thesis
      using True by (simp add: row_step_def mark_row_Some)
  next
    case False
    then show ?thesis using row by (simp add: row_step_def)
  qed
  then show ?thesis
    unfolding d' rows_exclusive_def list_all_iff by auto
qed

lemma length_toggle_checked [simp]: "length (toggle_checked k d) = length d"
  by (simp add: toggle_checked_def)

lemma map_toggle_checked:
  assumes "\<And>e b. g (e\<lparr>checked := b\<rparr>) = g e"
  shows "map g (toggle_checked k d) = map g d"
  by (simp add: toggle_checked_def map_update assms list_update_same_conv)

lemma rows_exclusive_cong:
  assumes "map (\<lambda>e. (hasClass ''framework-row'' e, hasClass ''available'' e, hasClass ''not-available'' e)) d'
         = map (\<lambda>e. (hasClass ''framework-row'' e, hasClass ''available'' e, hasClass ''not-available'' e)) d"
  shows "rows_exclusive d' = rows_exclusive d"
proof -
  have "rows_exclusive x =
          list_all (\<lambda>(r, a, n). r \<longrightarrow> \<not> (a \<and> n))
            (map (\<lambda>e. (hasClass ''framework-row'' e, hasClass ''available'' e,
                        hasClass ''not-available'' e)) x)" for x
    by (simp add: rows_exclusive_def list_all_iff)
  with assms show ?thesis by simp
qed

lemma rows_exclusive_toggle [simp]: "rows_exclusive (toggle_checked k d) = rows_exclusive d"
  by (rule rows_exclusive_cong, rule map_toggle_checked) (simp add: hasClass_def)

lemma kept_refl [simp]: "kept e e"
  by (simp add: kept_def)

lemma kept_trans: "kept a b \<Longrightarrow> kept b c \<Longrightarrow> kept a c"
  by (simp add: kept_def)

lemma marked_kept: "marked e e' \<Longrightarrow> kept e e' \<and> displayed e' = displayed e"
  by (auto simp: marked_def kept_def)

lemma mark_row_kept: "mark_row w e = Inr e' \<Longrightarrow> kept e e' \<and> displayed e' = displayed e"
  using mark_row_frame [of w e e']
        mark_row_other_class [of w e e' "''framework-maintainer-column''"]
  by (simp add: kept_def)

lemma getElementById_unrequire:
  "getElementById i (on_class ''framework-platform'' (removeClass ''framework-platform-required'') d)
     = getElementById i d"
  by (rule getElementById_cong, rule map_on_class) simp

lemma prepare_enabled_nth:
  "i < length d \<Longrightarrow>
     prepare_enabled d ! i =
       (let e = (if hasClass ''framework-platform'' (d ! i)
                 then removeClass ''framework-platform-required'' (d ! i) else d ! i)
        in if getElementById ''platform-filter-group'' d = Some i then jq_show e else e)"
  by (simp add: prepare_enabled_def nth_on_id nth_on_class getElementById_unrequire)

lemma finish_disabled_nth:
  "i < length d \<Longrightarrow>
     finish_disabled d ! i =
       (let e = (if hasClass ''framework-platform'' (d ! i)
                 then removeClass ''framework-platform-required'' (d ! i) else d ! i);
            e1 = (if getElementById ''platform-filter-group'' d = Some i then jq_hide e else e)
        in if hasClass ''framework-row'' e1
           then removeClass ''available'' (removeClass ''not-available'' e1) else e1)"
  by (simp add: finish_disabled_def nth_on_id nth_on_class getElementById_unrequire Let_def)

lemma prepare_enabled_kept:
  assumes "i < length d"
  shows "kept (d ! i) (prepare_enabled d ! i)"
    and "getElementById ''platform-filter-group'' d \<noteq> Some i \<Longrightarrow>
           displayed (prepare_enabled d ! i) = displayed (d ! i)"
  using assms by (simp_all add: prepare_enabled_nth kept_def Let_def)

lemma finish_disabled_kept:
  assumes "i < length d"
  shows "kept (d ! i) (finish_disabled d ! i)"
    and "getElementById ''platform-filter-group'' d \<noteq> Some i \<Longrightarrow>
           displayed (finish_disabled d ! i) = displayed (d ! i)"
  using assms by (simp_all add: finish_disabled_nth kept_def Let_def)

text \<open>A run of updatePlatforms changes no id, no checkbox and no display but the panel's.\<close>

lemma updatePlatforms_kept:
  fixes jq d
  defines "d' \<equiv> state_of (updatePlatforms jq d)"
  shows "length d' = length d"
    and "i < length d \<Longrightarrow> kept (d ! i) (d' ! i)"
    and "i < length d \<Longrightarrow> getElementById ''platform-filter-group'' d \<noteq> Some i \<Longrightarrow>
           displayed (d' ! i) = displayed (d ! i)"
proof -
  have "length d' = length d
        \<and> (i < length d \<longrightarrow> kept (d ! i) (d' ! i)
             \<and> (getElementById ''platform-filter-group'' d \<noteq> Some i \<longrightarrow>
                  displayed (d' ! i) = displayed (d ! i)))"
    using filter_trichotomy [of d]
  proof (elim disjE)
    assume "getElementById ''platform-filter'' d = None"
    then show ?thesis by (simp add: d'_def updatePlatforms_no_checkbox)
  next
    assume "filter_disabled d"
    then show ?thesis
      by (simp add: d'_def updatePlatforms_disabled_eq finish_disabled_kept)
  next
    assume en: "filter_enabled d"
    let ?R = "\<lambda>e e'. e' = e \<or> (hasClass ''framework-row'' e
                                  \<and> mark_row (wantedPlatforms d) e = Inr e')"
    obtain d3 where d3: "list_all2 marked (prepare_enabled d) d3" and rel: "list_all2 ?R d3 d'"
      using enabled_state [OF en, of jq] unfolding d'_def by blast
    have len3: "length d3 = length d"
      using list_all2_lengthD [OF d3] by simp
    have len: "length d' = length d"
      using list_all2_lengthD [OF rel] len3 by simp
    have "kept (d ! i) (d' ! i)
          \<and> (getElementById ''platform-filter-group'' d \<noteq> Some i \<longrightarrow>
               displayed (d' ! i) = displayed (d ! i))" if i: "i < length d"
    proof -
      have a: "kept (d ! i) (prepare_enabled d ! i)"
        and a': "getElementById ''platform-filter-group'' d \<noteq> Some i \<Longrightarrow>
                  displayed (prepare_enabled d ! i) = displayed (d ! i)"
        using prepare_enabled_kept [OF i] by blast+
      have b: "kept (prepare_enabled d ! i) (d3 ! i) \<and> displayed (d3 ! i) = displayed (prepare_enabled d ! i)"
        using list_all2_nthD [OF d3, of i] i by (simp add: marked_kept)
      have "?R (d3 ! i) (d' ! i)"
        using list_all2_nthD [OF rel, of i] i len3 by simp
      then have c: "kept (d3 ! i) (d' ! i) \<and> displayed (d' ! i) = displayed (d3 ! i)"
        using mark_row_kept by auto
      have "kept (d ! i) (d' ! i)"
        using a b c by (blast intro: kept_trans)
      moreover have "displayed (d' ! i) = displayed (d ! i)"
        if "getElementById ''platform-filter-group'' d \<noteq> Some i"
        using a' [OF that] b c by simp
      ultimately show ?thesis by blast
    qed
    with len show ?thesis by simp
  qed
  then show "length d' = length d"
    and "i < length d \<Longrightarrow> kept (d ! i) (d' ! i)"
    and "i < length d \<Longrightarrow> getElementById ''platform-filter-group'' d \<noteq> Some i \<Longrightarrow>
           displayed (d' ! i) = displayed (d ! i)"
    by blast+
qed

lemma doc_bind_click [simp]: "doc (bind_click sel h p) = doc p"
  by (simp add: bind_click_def)

lemma doc_initNoteTip [simp]: "doc (initNoteTip p) = doc p"
  by (simp add: initNoteTip_def Let_def)

lemma main_eq:
  "main p =
     with_doc (initNoteTip
                 (bind_click (select_class ''platform-checkbox'' (doc p)) UpdatePlatforms
                    (bind_click (select_id ''platform-filter'' (doc p)) UpdatePlatforms
                       (bind_click (select_id ''showMaintainers'' (doc p)) UpdateMaintainers p))))
       (updateMaintainers (doc p))"
  by (simp add: main_def Let_def)

lemma state_of_with_doc [simp]: "state_of (with_doc p r) = p\<lparr>doc := state_of r\<rparr>"
  by (cases r) (simp_all add: with_doc_def)

lemma call_back_doc [simp]:
  "doc (call_back cb p) = doc p" "click_handlers (call_back cb p) = click_handlers p"
  by (cases cb; simp)+

lemma note_click_doc:
  "doc (state_of (note_click this p)) = doc p"
  "click_handlers (state_of (note_click this p)) = click_handlers p"
  by (auto simp: note_click_def NoteTip_hide_def Let_def split: option.splits callback.splits)

lemma columns_follow_nth:
  "columns_follow m d =
     (\<forall>i < length d. hasClass ''framework-maintainer-column'' (d ! i) \<longrightarrow>
        displayed (d ! i) = checked (d ! m))"
  by (simp add: columns_follow_def list_all_length)

lemma map_eq_nth: "map f xs = map f ys \<Longrightarrow> i < length ys \<Longrightarrow> f (xs ! i) = f (ys ! i)"
  by (metis length_map nth_map)

lemma updateMaintainers_follow:
  assumes "getElementById ''showMaintainers'' d = Some m"
  shows "\<exists>d'. updateMaintainers d = Done d' \<and> length d' = length d
           \<and> map el_id d' = map el_id d \<and> map checked d' = map checked d
           \<and> map (hasClass ''framework-maintainer-column'') d'
               = map (hasClass ''framework-maintainer-column'') d
           \<and> columns_follow m d'"
proof -
  have m: "m < length d"
    using getElementById_Some [OF assms] by simp
  let ?f = "if checked (d ! m) then jq_show else jq_hide"
  let ?d' = "on_class ''framework-maintainer-column'' ?f d"
  have run: "updateMaintainers d = Done ?d'"
    using assms by (simp add: updateMaintainers_def)
  have "columns_follow m ?d'"
    using m by (simp add: columns_follow_nth nth_on_class)
  moreover have "map el_id ?d' = map el_id d" "map checked ?d' = map checked d"
    "map (hasClass ''framework-maintainer-column'') ?d'
       = map (hasClass ''framework-maintainer-column'') d"
    by (rule map_on_class, simp)+
  ultimately show ?thesis using run by simp
qed

lemma page_kept_checkbox:
  assumes "page_kept d p0 p" "getElementById ''showMaintainers'' d = Some m"
  shows "getElementById ''showMaintainers'' (doc p) = Some m"
  using assms getElementById_cong [of "doc p" d] by (simp add: page_kept_def)

lemma page_kept_panel:
  assumes "page_kept d p0 p" "panel_apart d" "i < length d"
    "hasClass ''framework-maintainer-column'' (doc p ! i)"
  shows "getElementById ''platform-filter-group'' (doc p) \<noteq> Some i"
proof
  assume g: "getElementById ''platform-filter-group'' (doc p) = Some i"
  have "getElementById ''platform-filter-group'' d = Some i"
    using g assms(1) getElementById_cong [of "doc p" d] by (simp add: page_kept_def)
  then have "\<not> hasClass ''framework-maintainer-column'' (d ! i)"
    using assms(2) by (simp add: panel_apart_def)
  moreover have "hasClass ''framework-maintainer-column'' (doc p ! i)
                   = hasClass ''framework-maintainer-column'' (d ! i)"
    using assms(1,3) by (intro map_eq_nth) (simp_all add: page_kept_def)
  ultimately show False using assms(4) by simp
qed

lemma list_all2_map_eq: "list_all2 (\<lambda>x y. f y = f x) xs ys \<Longrightarrow> map f ys = map f xs"
  by (induction rule: list_all2_induct) simp_all

lemma updatePlatforms_maps:
  "map el_id (state_of (updatePlatforms jq d)) = map el_id d"
  "map checked (state_of (updatePlatforms jq d)) = map checked d"
  "map (hasClass ''framework-maintainer-column'') (state_of (updatePlatforms jq d))
     = map (hasClass ''framework-maintainer-column'') d"
proof -
  have "list_all2 kept d (state_of (updatePlatforms jq d))"
    using updatePlatforms_kept(1,2) [where jq = jq and d = d] by (simp add: list_all2_conv_all_nth)
  then have "list_all2 (\<lambda>x y. el_id y = el_id x) d (state_of (updatePlatforms jq d))"
    "list_all2 (\<lambda>x y. checked y = checked x) d (state_of (updatePlatforms jq d))"
    "list_all2 (\<lambda>x y. hasClass ''framework-maintainer-column'' y
                        = hasClass ''framework-maintainer-column'' x)
       d (state_of (updatePlatforms jq d))"
    by (auto elim!: list_all2_mono simp: kept_def)
  then show "map el_id (state_of (updatePlatforms jq d)) = map el_id d"
    "map checked (state_of (updatePlatforms jq d)) = map checked d"
    "map (hasClass ''framework-maintainer-column'') (state_of (updatePlatforms jq d))
       = map (hasClass ''framework-maintainer-column'') d"
    by (simp_all add: list_all2_map_eq)
qed

lemma run_handler_kept:
  fixes jq :: selector_engine and h :: handler and this :: nat
  assumes kept: "page_kept d p0 p"
    and box: "getElementById ''showMaintainers'' d = Some m"
    and panel: "panel_apart d"
  defines "p' \<equiv> state_of (run_handler jq h this p)"
  shows "page_kept d p0 p'"
    and "map checked (doc p') = map checked (doc p)"
    and "columns_follow m (doc p) \<Longrightarrow> columns_follow m (doc p')"
    and "h = UpdateMaintainers \<Longrightarrow> run_handler jq h this p = Done p' \<and> columns_follow m (doc p')"
proof -
  have "page_kept d p0 p' \<and> map checked (doc p') = map checked (doc p)
        \<and> (columns_follow m (doc p) \<longrightarrow> columns_follow m (doc p'))
        \<and> (h = UpdateMaintainers \<longrightarrow>
             run_handler jq h this p = Done p' \<and> columns_follow m (doc p'))"
  proof (cases h)
    case UpdateMaintainers
    obtain d' where d': "updateMaintainers (doc p) = Done d'" "length d' = length (doc p)"
      "map el_id d' = map el_id (doc p)" "map checked d' = map checked (doc p)"
      "map (hasClass ''framework-maintainer-column'') d'
         = map (hasClass ''framework-maintainer-column'') (doc p)"
      "columns_follow m d'"
      using updateMaintainers_follow [OF page_kept_checkbox [OF kept box]] by blast
    then show ?thesis
      using UpdateMaintainers kept by (simp add: p'_def page_kept_def with_doc_def)
  next
    case UpdatePlatforms
    let ?d' = "state_of (updatePlatforms jq (doc p))"
    have p': "p' = p\<lparr>doc := ?d'\<rparr>"
      using UpdatePlatforms by (simp add: p'_def)
    have len: "length ?d' = length (doc p)"
      by (rule updatePlatforms_kept(1))
    have keptp: "page_kept d p0 p'"
      using kept len by (simp add: p' page_kept_def updatePlatforms_maps)
    have follow: "columns_follow m ?d'" if f: "columns_follow m (doc p)"
    proof -
      have m: "m < length (doc p)"
        using getElementById_Some [OF page_kept_checkbox [OF kept box]] by simp
      have "displayed (?d' ! i) = checked (?d' ! m)"
        if i: "i < length (doc p)" and col: "hasClass ''framework-maintainer-column'' (?d' ! i)" for i
      proof -
        have k: "kept (doc p ! i) (?d' ! i)" "kept (doc p ! m) (?d' ! m)"
          using updatePlatforms_kept(2) i m by blast+
        then have col0: "hasClass ''framework-maintainer-column'' (doc p ! i)"
          using col by (simp add: kept_def)
        have "i < length d" using i kept by (simp add: page_kept_def)
        then have "getElementById ''platform-filter-group'' (doc p) \<noteq> Some i"
          using page_kept_panel [OF kept panel _ col0] by simp
        then have "displayed (?d' ! i) = displayed (doc p ! i)"
          using updatePlatforms_kept(3) [OF i] by simp
        then show ?thesis
          using f i col0 k(2) by (simp add: columns_follow_nth kept_def)
      qed
      then show ?thesis by (simp add: columns_follow_nth len)
    qed
    show ?thesis
      using keptp follow UpdatePlatforms by (simp add: p' updatePlatforms_maps)
  next
    case NoteLinkClicked
    then show ?thesis
      using kept by (simp add: p'_def page_kept_def note_click_doc)
  qed
  then show "page_kept d p0 p'"
    and "map checked (doc p') = map checked (doc p)"
    and "columns_follow m (doc p) \<Longrightarrow> columns_follow m (doc p')"
    and "h = UpdateMaintainers \<Longrightarrow> run_handler jq h this p = Done p' \<and> columns_follow m (doc p')"
    by blast+
qed

lemma run_handlers_kept:
  assumes "page_kept d p0 p" "getElementById ''showMaintainers'' d = Some m" "panel_apart d"
  shows "page_kept d p0 (state_of (run_handlers jq hs this p))
         \<and> map checked (doc (state_of (run_handlers jq hs this p))) = map checked (doc p)
         \<and> (columns_follow m (doc p) \<longrightarrow>
              columns_follow m (doc (state_of (run_handlers jq hs this p))))"
  using assms(1)
proof (induction hs arbitrary: p)
  case Nil
  then show ?case by simp
next
  case (Cons h hs)
  let ?p1 = "state_of (run_handler jq h this p)"
  note one = run_handler_kept [OF Cons.prems assms(2,3), where jq = jq and h = h and this = this]
  show ?case
  proof (cases "run_handler jq h this p")
    case (Done p1)
    then have p1: "?p1 = p1" by simp
    from Cons.IH [of p1] one p1 Done show ?thesis by simp
  next
    case (Threw err p1)
    then have p1: "?p1 = p1" by simp
    from one p1 Threw show ?thesis by simp
  qed
qed

lemma run_handlers_first:
  assumes "page_kept d p0 p" "getElementById ''showMaintainers'' d = Some m" "panel_apart d"
  shows "columns_follow m (doc (state_of (run_handlers jq (UpdateMaintainers # hs) this p)))"
proof -
  let ?p1 = "state_of (run_handler jq UpdateMaintainers this p)"
  note one = run_handler_kept [OF assms, where jq = jq and h = UpdateMaintainers and this = this]
  have run: "run_handler jq UpdateMaintainers this p = Done ?p1" and f: "columns_follow m (doc ?p1)"
    using one(4) by simp_all
  from run_handlers_kept [OF one(1) assms(2,3), of jq hs this] f run show ?thesis
    by simp
qed

lemma handlers_of_kept: "page_kept d p0 p \<Longrightarrow> handlers_of k p = handlers_of k p0"
  by (simp add: handlers_of_def page_kept_def)

lemma page_kept_toggle:
  assumes "page_kept d p0 p"
  shows "page_kept d p0 (p\<lparr>doc := toggle_checked k (doc p)\<rparr>)"
proof -
  have "map el_id (toggle_checked k (doc p)) = map el_id (doc p)"
    "map (hasClass ''framework-maintainer-column'') (toggle_checked k (doc p))
       = map (hasClass ''framework-maintainer-column'') (doc p)"
    by (rule map_toggle_checked, simp add: hasClass_def)+
  then show ?thesis using assms by (simp add: page_kept_def)
qed

lemma toggle_checked_nth:
  "i < length d \<Longrightarrow>
     toggle_checked k d ! i = (if i = k then (d ! i)\<lparr>checked := \<not> checked (d ! i)\<rparr> else d ! i)"
  by (simp add: toggle_checked_def nth_list_update)

lemma columns_follow_toggle_other:
  assumes "columns_follow m d" "k \<noteq> m" "m < length d"
  shows "columns_follow m (toggle_checked k d)"
  using assms by (simp add: columns_follow_nth toggle_checked_nth hasClass_def)

lemma click_checkbox_kept:
  assumes kept: "page_kept d p0 p"
    and box: "getElementById ''showMaintainers'' d = Some m"
    and panel: "panel_apart d"
    and first: "handlers_of m p0 = UpdateMaintainers # rest"
    and follow: "columns_follow m (doc p)"
  shows "page_kept d p0 (state_of (click_checkbox jq k p))"
    and "columns_follow m (doc (state_of (click_checkbox jq k p)))"
    and "checked (doc (state_of (click_checkbox jq k p)) ! m) = (checked (doc p ! m) \<noteq> (k = m))"
proof -
  let ?p1 = "p\<lparr>doc := toggle_checked k (doc p)\<rparr>"
  let ?p' = "state_of (click_checkbox jq k p)"
  have m: "m < length (doc p)"
    using getElementById_Some [OF page_kept_checkbox [OF kept box]] by simp
  have kept1: "page_kept d p0 ?p1"
    using kept by (rule page_kept_toggle)
  have p': "?p' = state_of (run_handlers jq (handlers_of k p0) k ?p1)"
    using handlers_of_kept [OF kept1, of k]
    by (simp add: click_checkbox_def handlers_of_def)
  note run = run_handlers_kept [OF kept1 box panel, of jq "handlers_of k p0" k]
  show "page_kept d p0 ?p'"
    using run by (simp add: p')
  show "columns_follow m (doc ?p')"
  proof (cases "k = m")
    case True
    have "columns_follow m
            (doc (state_of (run_handlers jq (UpdateMaintainers # rest) k ?p1)))"
      by (rule run_handlers_first [OF kept1 box panel])
    then show ?thesis
      unfolding p' using True first by (simp only:)
  next
    case False
    then have "columns_follow m (doc ?p1)"
      using follow m by (simp add: columns_follow_toggle_other)
    then show ?thesis using run by (simp add: p')
  qed
  have "map checked (doc ?p') = map checked (toggle_checked k (doc p))"
    using run by (simp add: p')
  then have "checked (doc ?p' ! m) = checked (toggle_checked k (doc p) ! m)"
    using m by (intro map_eq_nth) simp_all
  then show "checked (doc ?p' ! m) = (checked (doc p ! m) \<noteq> (k = m))"
    using m by (auto simp: toggle_checked_nth)
qed

lemma checkbox_clicks_kept:
  assumes box: "getElementById ''showMaintainers'' d = Some m"
    and panel: "panel_apart d"
    and first: "handlers_of m p0 = UpdateMaintainers # rest"
  shows "page_kept d p0 p \<Longrightarrow> columns_follow m (doc p) \<Longrightarrow>
           page_kept d p0 (checkbox_clicks jq ks p)
           \<and> columns_follow m (doc (checkbox_clicks jq ks p))
           \<and> checked (doc (checkbox_clicks jq ks p) ! m)
               = (checked (doc p ! m) \<noteq> odd (count_list ks m))"
proof (induction ks arbitrary: p)
  case Nil
  then show ?case by simp
next
  case (Cons k ks)
  note one = click_checkbox_kept [OF Cons.prems(1) box panel first Cons.prems(2), of jq k]
  from Cons.IH [OF one(1,2)] one(3) show ?case by auto
qed

lemma select_id_Some: "getElementById i d = Some k \<Longrightarrow> select_id i d = [k]"
  by (simp add: select_id_def)

lemma main_ready:
  assumes "getElementById ''showMaintainers'' d = Some m"
  shows "\<exists>p0 rest. main (page_loaded d) = Done p0 \<and> page_kept d p0 p0
           \<and> columns_follow m (doc p0) \<and> checked (doc p0 ! m) = checked (d ! m)
           \<and> handlers_of m p0 = UpdateMaintainers # rest"
proof -
  obtain d' where d': "updateMaintainers d = Done d'" "length d' = length d"
    "map el_id d' = map el_id d" "map checked d' = map checked d"
    "map (hasClass ''framework-maintainer-column'') d'
       = map (hasClass ''framework-maintainer-column'') d"
    "columns_follow m d'"
    using updateMaintainers_follow [OF assms] by blast
  let ?p4 = "initNoteTip
               (bind_click (select_class ''platform-checkbox'' d) UpdatePlatforms
                  (bind_click (select_id ''platform-filter'' d) UpdatePlatforms
                     (bind_click (select_id ''showMaintainers'' d) UpdateMaintainers (page_loaded d))))"
  let ?p0 = "?p4\<lparr>doc := d'\<rparr>"
  have run: "main (page_loaded d) = Done ?p0"
    using d'(1) by (simp add: main_eq page_loaded_def with_doc_def)
  have m: "m < length d"
    using getElementById_Some [OF assms] by simp
  have "checked (d' ! m) = checked (d ! m)"
    using d'(4) m by (intro map_eq_nth) simp_all
  moreover have "\<exists>rest. handlers_of m ?p0 = UpdateMaintainers # rest"
    by (simp add: handlers_of_def initNoteTip_def bind_click_def page_loaded_def Let_def
          select_id_Some [OF assms])
  moreover have "page_kept d ?p0 ?p0"
    using d' by (simp add: page_kept_def)
  ultimately show ?thesis
    using run d'(6) by auto
qed

lemma select_id_bound: "k \<in> set (select_id i d) \<Longrightarrow> k < length d"
  by (cases "getElementById i d") (auto simp: select_id_def dest: getElementById_Some)

lemma select_class_bound: "k \<in> set (select_class c d) \<Longrightarrow> k < length d"
  by (simp add: select_class_def)

lemma select_note_links_bound: "k \<in> set (select_note_links d) \<Longrightarrow> k < length d"
  by (simp add: select_note_links_def)

lemma updateMaintainers_cases:
  "updateMaintainers d = Threw TypeError d
   \<or> (\<exists>d'. updateMaintainers d = Done d' \<and> length d' = length d)"
  by (simp add: updateMaintainers_def split: option.splits)

lemma main_invariant:
  "\<exists>p. final_state (main (page_loaded d)) = Some p \<and> tip_invariant p"
proof -
  let ?p4 = "initNoteTip
               (bind_click (select_class ''platform-checkbox'' d) UpdatePlatforms
                  (bind_click (select_id ''platform-filter'' d) UpdatePlatforms
                     (bind_click (select_id ''showMaintainers'' d) UpdateMaintainers (page_loaded d))))"
  have m: "main (page_loaded d) = with_doc ?p4 (updateMaintainers d)"
    by (simp add: main_eq page_loaded_def)
  have inv: "tip_invariant (?p4\<lparr>doc := d'\<rparr>)" if "length d' = length d" for d'
    using that
    by (auto simp: tip_invariant_def tip_consistent_def initNoteTip_def bind_click_def
          page_loaded_def NoteTip_new_def Let_def list_all_iff
          dest: select_id_bound select_class_bound select_note_links_bound)
  from updateMaintainers_cases [of d] show ?thesis
  proof
    assume "updateMaintainers d = Threw TypeError d"
    then show ?thesis using inv [of d] by (simp add: m with_doc_def)
  next
    assume "\<exists>d'. updateMaintainers d = Done d' \<and> length d' = length d"
    then show ?thesis using inv by (auto simp: m with_doc_def)
  qed
qed

lemma NoteTip_hide_invariant:
  assumes "tip_invariant p" "g_noteTip p = Some t"
  shows "tip_invariant (NoteTip_hide t p)"
    and "g_currentlyDescribedElement (NoteTip_hide t p) = Null"
    and "\<exists>t'. g_noteTip (NoteTip_hide t p) = Some t' \<and> tip_anchor t' = None"
  using assms
  by (auto simp: tip_invariant_def tip_consistent_def NoteTip_hide_def Let_def
           split: jsref.splits)

lemma note_click_same:
  assumes "tip_invariant p" "g_currentlyDescribedElement p = Element e"
  shows "\<exists>p' t. note_click e p = Done p' \<and> tip_invariant p'
           \<and> g_currentlyDescribedElement p' = Null
           \<and> g_noteTip p' = Some t \<and> tip_anchor t = None"
proof -
  from assms(1) obtain t where t: "g_noteTip p = Some t"
    by (auto simp: tip_invariant_def split: option.splits)
  have "note_click e p = Done (NoteTip_hide t p)"
    using assms(2) t by (simp add: note_click_def)
  then show ?thesis
    using NoteTip_hide_invariant [OF assms(1) t] by auto
qed

lemma note_click_other:
  assumes "tip_invariant p" "g_currentlyDescribedElement p \<noteq> Element e"
    "(e, NoteLinkClicked) \<in> set (click_handlers p)"
  shows "\<exists>p' t. note_click e p = Done p' \<and> tip_invariant p'
           \<and> g_currentlyDescribedElement p' = Element e
           \<and> g_noteTip p' = Some t
           \<and> tip_text t = getAttribute ''data-note'' (doc p ! e)
           \<and> tip_anchor t = Some e
           \<and> e < length (doc p)"
proof -
  from assms(1) obtain t where t: "g_noteTip p = Some t" "onHide t = Some ClearDescribedElement"
    by (auto simp: tip_invariant_def split: option.splits)
  have bound: "e < length (doc p)"
    using assms(1,3) by (auto simp: tip_invariant_def list_all_iff)
  let ?p' = "p\<lparr>g_currentlyDescribedElement := Element e,
               g_noteTip := Some (NoteTip_show e
                              (NoteTip_setText (getAttribute ''data-note'' (doc p ! e)) t))\<rparr>"
  have run: "note_click e p = Done ?p'"
    using assms(2) t by (simp add: note_click_def Let_def)
  have "tip_invariant ?p'"
    using assms(1,3) t
    by (simp add: tip_invariant_def tip_consistent_def NoteTip_show_def NoteTip_setText_def)
  then show ?thesis
    using run bound by (simp add: NoteTip_show_def NoteTip_setText_def)
qed

lemma step_invariant:
  assumes "tip_invariant p"
  shows "\<exists>p'. step ev p = Done p' \<and> tip_invariant p'"
proof (cases ev)
  case (NoteLinkClick e)
  show ?thesis
  proof (cases "(e, NoteLinkClicked) \<in> set (click_handlers p)")
    case False
    then show ?thesis using assms NoteLinkClick by simp
  next
    case True
    show ?thesis
    proof (cases "g_currentlyDescribedElement p = Element e")
      case same: True
      then show ?thesis
        using note_click_same [OF assms same] True NoteLinkClick by auto
    next
      case other: False
      then show ?thesis
        using note_click_other [OF assms other True] True NoteLinkClick by auto
    qed
  qed
next
  case TipHide
  from assms obtain t where t: "g_noteTip p = Some t"
    by (auto simp: tip_invariant_def split: option.splits)
  then show ?thesis
    using NoteTip_hide_invariant(1) [OF assms t] TipHide by simp
qed

lemma run_events_invariant:
  "tip_invariant p \<Longrightarrow> \<exists>p'. run_events evs p = Some p' \<and> tip_invariant p'"
proof (induction evs arbitrary: p)
  case Nil
  then show ?case by simp
next
  case (Cons ev evs)
  from step_invariant [OF Cons.prems, of ev] obtain p1 where
    p1: "step ev p = Done p1" "tip_invariant p1" by blast
  from Cons.IH [OF p1(2)] show ?case using p1(1) by simp
qed

lemma page_after_invariant: "\<exists>p. page_after d evs = Some p \<and> tip_invariant p"
proof -
  obtain p0 where p0: "final_state (main (page_loaded d)) = Some p0" "tip_invariant p0"
    using main_invariant by blast
  from run_events_invariant [OF p0(2), of evs] show ?thesis
    using p0(1) by (simp add: page_after_def)
qed

lemma csharp_rejected: "jq_find jq ''.framework-platform-C#'' d = None"
proof -
  have "list_all modelled_selector_char ''.framework-platform-C#''" by code_simp
  moreover have "parse_selector ''.framework-platform-C#'' = None" by code_simp
  ultimately show ?thesis by (simp add: jq_find_def)
qed

lemma page_csharp_throws:
  "updatePlatforms jq page_csharp = Threw SyntaxError (prepare_enabled page_csharp)"
proof -
  have en: "filter_enabled page_csharp" by code_simp
  have w: "wantedPlatforms page_csharp = [Some ''C#'', Some ''Linux'']" by code_simp
  have "mark_required jq (wantedPlatforms page_csharp) (prepare_enabled page_csharp)
          = Threw SyntaxError (prepare_enabled page_csharp)"
    using csharp_rejected [of jq] by (simp add: w js_concat_def)
  then show ?thesis
    using en by (simp add: updatePlatforms_enabled)
qed

section \<open>The platform filter\<close>

text \<open>
  Claim C1, amended. With the platform filter enabled, the rows carrying their
  \<^verbatim>\<open>data-platforms\<close> attribute and jQuery accepting every selector that line 33
  builds from the wanted platforms, \<^verbatim>\<open>updatePlatforms\<close> returns, and it marks a
  row "available" exactly when every wanted platform (the \<^verbatim>\<open>data-platform\<close> value
  of a checked platform checkbox) is one of the comma-separated pieces of the row's
  attribute, and "not-available" exactly when one is missing. Platforms made of ASCII
  letters, digits, \<^verbatim>\<open>_\<close> and \<^verbatim>\<open>-\<close> are always accepted
  (\<open>wanted_selectable_accepted\<close>).
\<close>

theorem updatePlatforms_available_iff_subset:
  assumes "filter_enabled d" "rows_have_platforms d" "selectors_accepted jq d"
  shows "\<exists>d'. updatePlatforms jq d = Done d' \<and> length d' = length d \<and>
           (\<forall>i < length d. \<forall>s ws.
              hasClass ''framework-row'' (d ! i) \<longrightarrow>
              getAttribute ''data-platforms'' (d ! i) = Some s \<longrightarrow>
              comma_pieces s ws \<longrightarrow>
                (hasClass ''available'' (d' ! i) \<longleftrightarrow> wanted_tags d \<subseteq> Some ` set ws)
              \<and> (hasClass ''not-available'' (d' ! i) \<longleftrightarrow> \<not> wanted_tags d \<subseteq> Some ` set ws))"
  using enabled_run_rows [OF assms]
  by (auto simp: set_wantedPlatforms dest!: comma_pieces_split_on)

theorem updatePlatforms_available_iff_subset_witness:
  "filter_enabled example_page \<and> rows_have_platforms example_page
   \<and> selectors_accepted no_extension example_page
   \<and> wanted_tags example_page = {Some ''Linux''}
   \<and> getAttribute ''data-platforms'' (example_page ! 5) = Some ''Linux,Windows''
   \<and> comma_pieces ''Linux,Windows'' [''Linux'', ''Windows'']
   \<and> getAttribute ''data-platforms'' (example_page ! 11) = Some ''Windows''
   \<and> comma_pieces ''Windows'' [''Windows'']
   \<and> (\<exists>d'. updatePlatforms no_extension example_page = Done d'
          \<and> hasClass ''available'' (d' ! 5) \<and> \<not> hasClass ''not-available'' (d' ! 5)
          \<and> hasClass ''not-available'' (d' ! 11) \<and> \<not> hasClass ''available'' (d' ! 11))"
proof -
  have h1: "filter_enabled example_page" by code_simp
  have h2: "rows_have_platforms example_page" by code_simp
  have h3: "selectors_accepted no_extension example_page" by code_simp
  have "wantedPlatforms example_page = [Some ''Linux'']" by code_simp
  then have w: "wanted_tags example_page = {Some ''Linux''}"
    using set_wantedPlatforms [of example_page] by simp
  have i5: "5 < length example_page" and i11: "11 < length example_page" by code_simp+
  have r5: "hasClass ''framework-row'' (example_page ! 5)"
    and a5: "getAttribute ''data-platforms'' (example_page ! 5) = Some ''Linux,Windows''"
    and c5: "comma_pieces ''Linux,Windows'' [''Linux'', ''Windows'']"
    by code_simp+
  have r11: "hasClass ''framework-row'' (example_page ! 11)"
    and a11: "getAttribute ''data-platforms'' (example_page ! 11) = Some ''Windows''"
    and c11: "comma_pieces ''Windows'' [''Windows'']"
    by code_simp+
  from updatePlatforms_available_iff_subset [OF h1 h2 h3] obtain d' where
    run: "updatePlatforms no_extension example_page = Done d'" and
    marks: "\<forall>i < length example_page. \<forall>s ws.
              hasClass ''framework-row'' (example_page ! i) \<longrightarrow>
              getAttribute ''data-platforms'' (example_page ! i) = Some s \<longrightarrow>
              comma_pieces s ws \<longrightarrow>
                (hasClass ''available'' (d' ! i) \<longleftrightarrow> wanted_tags example_page \<subseteq> Some ` set ws)
              \<and> (hasClass ''not-available'' (d' ! i)
                   \<longleftrightarrow> \<not> wanted_tags example_page \<subseteq> Some ` set ws)"
    by blast
  from marks [rule_format, OF i5 r5 a5 c5] marks [rule_format, OF i11 r11 a11 c11]
  have "hasClass ''available'' (d' ! 5) \<and> \<not> hasClass ''not-available'' (d' ! 5)"
    "hasClass ''not-available'' (d' ! 11) \<and> \<not> hasClass ''available'' (d' ! 11)"
    by (simp_all add: w)
  with h1 h2 h3 w a5 c5 a11 c11 run show ?thesis by blast
qed

text \<open>
  Claim C1 as first stated, for every set of wanted platforms, fails: with the platform
  \<^verbatim>\<open>C#\<close> checked, the selector \<^verbatim>\<open>.framework-platform-C#\<close> makes jQuery throw
  at line 33, before any row is looked at (\<open>page_csharp_throws\<close>, whatever the rest
  of the selector engine does). The row below has both wanted platforms and stays
  without the "available" mark.
\<close>

theorem updatePlatforms_available_counterexample:
  "filter_enabled page_csharp \<and> rows_have_platforms page_csharp
   \<and> hasClass ''framework-row'' (page_csharp ! 4)
   \<and> getAttribute ''data-platforms'' (page_csharp ! 4) = Some ''C#,Linux''
   \<and> comma_pieces ''C#,Linux'' [''C#'', ''Linux'']
   \<and> wanted_tags page_csharp \<subseteq> Some ` set [''C#'', ''Linux'']
   \<and> updatePlatforms no_extension page_csharp = Threw SyntaxError (prepare_enabled page_csharp)
   \<and> \<not> hasClass ''available'' (state_of (updatePlatforms no_extension page_csharp) ! 4)"
proof -
  have "filter_enabled page_csharp" "rows_have_platforms page_csharp"
    "hasClass ''framework-row'' (page_csharp ! 4)"
    "getAttribute ''data-platforms'' (page_csharp ! 4) = Some ''C#,Linux''"
    "comma_pieces ''C#,Linux'' [''C#'', ''Linux'']"
    by code_simp+
  moreover have "wantedPlatforms page_csharp = [Some ''C#'', Some ''Linux'']" by code_simp
  then have "wanted_tags page_csharp \<subseteq> Some ` set [''C#'', ''Linux'']"
    using set_wantedPlatforms [of page_csharp] by simp
  moreover have "\<not> hasClass ''available'' (prepare_enabled page_csharp ! 4)" by code_simp
  ultimately show ?thesis by (simp add: page_csharp_throws)
qed

text \<open>
  Claim C2. With the platform filter enabled and no platform checkbox checked,
  \<^verbatim>\<open>updatePlatforms\<close> returns and every row is marked "available" and not
  "not-available", whatever its \<^verbatim>\<open>data-platforms\<close> attribute holds.
\<close>

theorem updatePlatforms_nothing_wanted:
  assumes "filter_enabled d" "no_platform_checked d" "rows_have_platforms d"
  shows "\<exists>d'. updatePlatforms jq d = Done d' \<and> length d' = length d \<and>
           (\<forall>i < length d. hasClass ''framework-row'' (d ! i) \<longrightarrow>
              hasClass ''available'' (d' ! i) \<and> \<not> hasClass ''not-available'' (d' ! i))"
proof -
  have w: "wantedPlatforms d = []"
    using assms(2) by (rule no_platform_checked_wanted)
  from enabled_run_rows [OF assms(1,3) nothing_wanted_accepted [OF w]] obtain d' where
    run: "updatePlatforms jq d = Done d'" "length d' = length d" and
    marks: "\<forall>i < length d. \<forall>s.
              hasClass ''framework-row'' (d ! i) \<longrightarrow>
              getAttribute ''data-platforms'' (d ! i) = Some s \<longrightarrow>
                (hasClass ''available'' (d' ! i)
                   \<longleftrightarrow> set (wantedPlatforms d) \<subseteq> Some ` set (split_on CHR '','' s))
              \<and> (hasClass ''not-available'' (d' ! i)
                   \<longleftrightarrow> \<not> set (wantedPlatforms d) \<subseteq> Some ` set (split_on CHR '','' s))"
    by blast
  have "hasClass ''available'' (d' ! i) \<and> \<not> hasClass ''not-available'' (d' ! i)"
    if i: "i < length d" and row: "hasClass ''framework-row'' (d ! i)" for i
  proof -
    obtain s where s: "getAttribute ''data-platforms'' (d ! i) = Some s"
      using rows_have_platforms_nth [OF assms(3) i row] by blast
    show ?thesis
      using marks i row s by (simp add: w)
  qed
  with run show ?thesis by blast
qed

theorem updatePlatforms_nothing_wanted_witness:
  "filter_enabled example_unchecked \<and> no_platform_checked example_unchecked
   \<and> rows_have_platforms example_unchecked
   \<and> (\<exists>d'. updatePlatforms no_extension example_unchecked = Done d'
          \<and> hasClass ''available'' (d' ! 5) \<and> \<not> hasClass ''not-available'' (d' ! 5)
          \<and> hasClass ''available'' (d' ! 11) \<and> \<not> hasClass ''not-available'' (d' ! 11)
          \<and> hasClass ''available'' (d' ! 12) \<and> \<not> hasClass ''not-available'' (d' ! 12))"
proof -
  have h1: "filter_enabled example_unchecked" by code_simp
  have h2: "no_platform_checked example_unchecked" by code_simp
  have h3: "rows_have_platforms example_unchecked" by code_simp
  have len: "length example_unchecked = 13" by code_simp
  have rows: "hasClass ''framework-row'' (example_unchecked ! 5)"
    "hasClass ''framework-row'' (example_unchecked ! 11)"
    "hasClass ''framework-row'' (example_unchecked ! 12)"
    by code_simp+
  from updatePlatforms_nothing_wanted [OF h1 h2 h3] obtain d' where
    run: "updatePlatforms no_extension example_unchecked = Done d'" and
    marks: "\<forall>i < length example_unchecked. hasClass ''framework-row'' (example_unchecked ! i) \<longrightarrow>
              hasClass ''available'' (d' ! i) \<and> \<not> hasClass ''not-available'' (d' ! i)"
    by blast
  from marks rows have
    "hasClass ''available'' (d' ! 5) \<and> \<not> hasClass ''not-available'' (d' ! 5)"
    "hasClass ''available'' (d' ! 11) \<and> \<not> hasClass ''not-available'' (d' ! 11)"
    "hasClass ''available'' (d' ! 12) \<and> \<not> hasClass ''not-available'' (d' ! 12)"
    by (simp_all add: len)
  with h1 h2 h3 run show ?thesis by blast
qed

text \<open>
  Claim C3. With the platform-filter checkbox unchecked, \<^verbatim>\<open>updatePlatforms\<close> returns
  with the options panel hidden and with neither "available" nor "not-available" on any
  row, whatever the rows carried before. It returns on every such page, also where the
  rows have no \<^verbatim>\<open>data-platforms\<close> attribute and the enabled branch would throw on
  reading it: no row's platforms are looked at.
\<close>

theorem updatePlatforms_disabled_clears:
  assumes "filter_disabled d"
  shows "\<exists>d'. updatePlatforms jq d = Done d' \<and> length d' = length d \<and>
           (\<forall>i < length d. hasClass ''framework-row'' (d ! i) \<longrightarrow>
              \<not> hasClass ''available'' (d' ! i) \<and> \<not> hasClass ''not-available'' (d' ! i)) \<and>
           (\<forall>g. getElementById ''platform-filter-group'' d = Some g \<longrightarrow> \<not> displayed (d' ! g))"
  using updatePlatforms_disabled_eq [OF assms, of jq]
  by (simp add: hasClass_finish_disabled displayed_finish_disabled)

theorem updatePlatforms_disabled_clears_witness:
  "filter_disabled example_bare \<and> \<not> rows_have_platforms example_bare
   \<and> hasClass ''available'' (example_bare ! 5) \<and> hasClass ''not-available'' (example_bare ! 5)
   \<and> (\<exists>d'. updatePlatforms no_extension example_bare = Done d'
          \<and> \<not> hasClass ''available'' (d' ! 5) \<and> \<not> hasClass ''not-available'' (d' ! 5)
          \<and> \<not> displayed (d' ! 2))"
proof -
  have h: "filter_disabled example_bare" by code_simp
  have bare: "\<not> rows_have_platforms example_bare" by code_simp
  have before: "hasClass ''available'' (example_bare ! 5)"
    "hasClass ''not-available'' (example_bare ! 5)"
    by code_simp+
  have len: "length example_bare = 13" by code_simp
  have row: "hasClass ''framework-row'' (example_bare ! 5)" by code_simp
  have panel: "getElementById ''platform-filter-group'' example_bare = Some 2" by code_simp
  from updatePlatforms_disabled_clears [OF h] obtain d' where
    run: "updatePlatforms no_extension example_bare = Done d'" and
    marks: "\<forall>i < length example_bare. hasClass ''framework-row'' (example_bare ! i) \<longrightarrow>
              \<not> hasClass ''available'' (d' ! i) \<and> \<not> hasClass ''not-available'' (d' ! i)" and
    hidden: "\<forall>g. getElementById ''platform-filter-group'' example_bare = Some g \<longrightarrow>
              \<not> displayed (d' ! g)"
    by blast
  from marks row have "\<not> hasClass ''available'' (d' ! 5) \<and> \<not> hasClass ''not-available'' (d' ! 5)"
    by (simp add: len)
  moreover from hidden panel have "\<not> displayed (d' ! 2)" by blast
  ultimately show ?thesis using h bare before run by blast
qed

text \<open>
  Claim C4. No row carries both "available" and "not-available" after any sequence of
  runs of \<^verbatim>\<open>updatePlatforms\<close>, each after a click on a checkbox, whether the runs
  return or throw and whatever jQuery does with the selectors: a page whose rows do not
  carry both keeps that through every run, and a run that returns establishes it
  whatever the rows carried before.
\<close>

theorem rows_never_both_marks:
  assumes "rows_exclusive d \<or> some_run_returns jq ks d"
  shows "rows_exclusive (updatePlatforms_runs jq ks d)"
  using assms
proof (induction ks arbitrary: d)
  case Nil
  then show ?case by simp
next
  case (Cons k ks)
  let ?r = "updatePlatforms jq (toggle_checked k d)"
  have "rows_exclusive (state_of ?r) \<or> some_run_returns jq ks (state_of ?r)"
  proof (cases "rows_exclusive d")
    case True
    then show ?thesis
      using updatePlatforms_keeps_exclusive [of "toggle_checked k d" jq] by simp
  next
    case False
    with Cons.prems have "returned ?r \<or> some_run_returns jq ks (state_of ?r)"
      by simp
    then show ?thesis
    proof
      assume "returned ?r"
      then obtain d' where "?r = Done d'" by (cases ?r) simp_all
      then show ?thesis
        using updatePlatforms_Done_exclusive [of jq "toggle_checked k d" d'] by simp
    qed simp
  qed
  then show ?case
    using Cons.IH by simp
qed

theorem rows_never_both_marks_witness:
  "\<not> rows_exclusive example_stale \<and> some_run_returns no_extension [3, 4] example_stale
   \<and> rows_exclusive (updatePlatforms_runs no_extension [3, 4] example_stale)
   \<and> rows_exclusive page_csharp \<and> \<not> some_run_returns no_extension [3] page_csharp
   \<and> rows_exclusive (updatePlatforms_runs no_extension [3] page_csharp)"
proof -
  have stale: "\<not> rows_exclusive example_stale" by code_simp
  have ret: "some_run_returns no_extension [3, 4] example_stale" by code_simp
  have excl: "rows_exclusive page_csharp" by code_simp
  have thrown: "\<not> some_run_returns no_extension [3] page_csharp" by code_simp
  have "rows_exclusive (updatePlatforms_runs no_extension [3, 4] example_stale)"
    using rows_never_both_marks [of example_stale no_extension "[3, 4]"] ret by simp
  moreover have "rows_exclusive (updatePlatforms_runs no_extension [3] page_csharp)"
    using rows_never_both_marks [of page_csharp no_extension "[3]"] excl by simp
  ultimately show ?thesis using stale ret excl thrown by blast
qed

text \<open>
  Claim C9, amended. The empty string splits into one piece, the empty string, and that
  is its only reading as comma-separated pieces. So a row whose \<^verbatim>\<open>data-platforms\<close>
  attribute is empty has the one platform \<open>''''\<close>: in a run with the filter enabled
  in which jQuery accepts the selectors of line 33, the row is marked "available"
  exactly when no wanted platform differs from the empty string (nothing is wanted, or
  only the empty string), and "not-available" exactly when one does.
\<close>

theorem empty_data_platforms:
  assumes "filter_enabled d" "rows_have_platforms d" "selectors_accepted jq d"
  shows "split_on CHR '','' '''' = ['''']
         \<and> (\<forall>ws. comma_pieces '''' ws \<longrightarrow> ws = [''''])
         \<and> (\<exists>d'. updatePlatforms jq d = Done d' \<and> length d' = length d \<and>
              (\<forall>i < length d.
                 hasClass ''framework-row'' (d ! i) \<longrightarrow>
                 getAttribute ''data-platforms'' (d ! i) = Some '''' \<longrightarrow>
                   (hasClass ''available'' (d' ! i) \<longleftrightarrow> wanted_tags d \<subseteq> {Some ''''})
                 \<and> (hasClass ''not-available'' (d' ! i) \<longleftrightarrow> \<not> wanted_tags d \<subseteq> {Some ''''})))"
proof -
  from enabled_run_rows [OF assms] obtain d' where
    run: "updatePlatforms jq d = Done d'" "length d' = length d" and
    marks: "\<forall>i < length d. \<forall>s.
              hasClass ''framework-row'' (d ! i) \<longrightarrow>
              getAttribute ''data-platforms'' (d ! i) = Some s \<longrightarrow>
                (hasClass ''available'' (d' ! i)
                   \<longleftrightarrow> set (wantedPlatforms d) \<subseteq> Some ` set (split_on CHR '','' s))
              \<and> (hasClass ''not-available'' (d' ! i)
                   \<longleftrightarrow> \<not> set (wantedPlatforms d) \<subseteq> Some ` set (split_on CHR '','' s))"
    by blast
  have "(hasClass ''available'' (d' ! i) \<longleftrightarrow> wanted_tags d \<subseteq> {Some ''''})
        \<and> (hasClass ''not-available'' (d' ! i) \<longleftrightarrow> \<not> wanted_tags d \<subseteq> {Some ''''})"
    if "i < length d" "hasClass ''framework-row'' (d ! i)"
       "getAttribute ''data-platforms'' (d ! i) = Some ''''" for i
    using marks [rule_format, OF that] by (simp add: set_wantedPlatforms)
  with run show ?thesis
    using comma_pieces_empty by auto
qed

theorem empty_data_platforms_witness:
  "filter_enabled page_empty_tag \<and> rows_have_platforms page_empty_tag
   \<and> selectors_accepted no_extension page_empty_tag
   \<and> wanted_tags page_empty_tag = {Some ''''}
   \<and> getAttribute ''data-platforms'' (page_empty_tag ! 2) = Some ''''
   \<and> hasClass ''not-available'' (page_empty_tag ! 2)
   \<and> (\<exists>d'. updatePlatforms no_extension page_empty_tag = Done d'
          \<and> hasClass ''available'' (d' ! 2) \<and> \<not> hasClass ''not-available'' (d' ! 2))
   \<and> wanted_tags example_page = {Some ''Linux''}
   \<and> getAttribute ''data-platforms'' (example_page ! 12) = Some ''''
   \<and> (\<exists>d'. updatePlatforms no_extension example_page = Done d'
          \<and> hasClass ''not-available'' (d' ! 12) \<and> \<not> hasClass ''available'' (d' ! 12))"
proof -
  have h1: "filter_enabled page_empty_tag" by code_simp
  have h2: "rows_have_platforms page_empty_tag" by code_simp
  have h3: "selectors_accepted no_extension page_empty_tag" by code_simp
  have "wantedPlatforms page_empty_tag = [Some '''']" by code_simp
  then have w: "wanted_tags page_empty_tag = {Some ''''}"
    using set_wantedPlatforms [of page_empty_tag] by simp
  have i2: "2 < length page_empty_tag"
    and r2: "hasClass ''framework-row'' (page_empty_tag ! 2)"
    and a2: "getAttribute ''data-platforms'' (page_empty_tag ! 2) = Some ''''"
    and b2: "hasClass ''not-available'' (page_empty_tag ! 2)"
    by code_simp+
  from empty_data_platforms [OF h1 h2 h3] obtain d' where
    run: "updatePlatforms no_extension page_empty_tag = Done d'" and
    marks: "\<forall>i < length page_empty_tag.
              hasClass ''framework-row'' (page_empty_tag ! i) \<longrightarrow>
              getAttribute ''data-platforms'' (page_empty_tag ! i) = Some '''' \<longrightarrow>
                (hasClass ''available'' (d' ! i) \<longleftrightarrow> wanted_tags page_empty_tag \<subseteq> {Some ''''})
              \<and> (hasClass ''not-available'' (d' ! i)
                   \<longleftrightarrow> \<not> wanted_tags page_empty_tag \<subseteq> {Some ''''})"
    by blast
  from marks [rule_format, OF i2 r2 a2]
  have one: "hasClass ''available'' (d' ! 2) \<and> \<not> hasClass ''not-available'' (d' ! 2)"
    by (simp add: w)
  have g1: "filter_enabled example_page" by code_simp
  have g2: "rows_have_platforms example_page" by code_simp
  have g3: "selectors_accepted no_extension example_page" by code_simp
  have "wantedPlatforms example_page = [Some ''Linux'']" by code_simp
  then have v: "wanted_tags example_page = {Some ''Linux''}"
    using set_wantedPlatforms [of example_page] by simp
  have i12: "12 < length example_page"
    and r12: "hasClass ''framework-row'' (example_page ! 12)"
    and a12: "getAttribute ''data-platforms'' (example_page ! 12) = Some ''''"
    by code_simp+
  from empty_data_platforms [OF g1 g2 g3] obtain e' where
    run': "updatePlatforms no_extension example_page = Done e'" and
    marks': "\<forall>i < length example_page.
              hasClass ''framework-row'' (example_page ! i) \<longrightarrow>
              getAttribute ''data-platforms'' (example_page ! i) = Some '''' \<longrightarrow>
                (hasClass ''available'' (e' ! i) \<longleftrightarrow> wanted_tags example_page \<subseteq> {Some ''''})
              \<and> (hasClass ''not-available'' (e' ! i)
                   \<longleftrightarrow> \<not> wanted_tags example_page \<subseteq> {Some ''''})"
    by blast
  from marks' [rule_format, OF i12 r12 a12]
  have two: "hasClass ''not-available'' (e' ! 12) \<and> \<not> hasClass ''available'' (e' ! 12)"
    by (simp add: v)
  from h1 h2 h3 w a2 b2 run one v a12 run' two show ?thesis by blast
qed

text \<open>
  Claim C9 as first stated, "not-available" whenever a wanted platform other than the
  empty string is checked, fails for a platform whose selector jQuery rejects: with
  \<^verbatim>\<open>C#\<close> checked the run throws at line 33 and the row with the empty attribute
  is left without a mark.
\<close>

theorem empty_data_platforms_counterexample:
  "filter_enabled page_csharp \<and> rows_have_platforms page_csharp
   \<and> hasClass ''framework-row'' (page_csharp ! 6)
   \<and> getAttribute ''data-platforms'' (page_csharp ! 6) = Some ''''
   \<and> Some ''C#'' \<in> set (wantedPlatforms page_csharp)
   \<and> updatePlatforms no_extension page_csharp = Threw SyntaxError (prepare_enabled page_csharp)
   \<and> \<not> hasClass ''not-available'' (state_of (updatePlatforms no_extension page_csharp) ! 6)"
proof -
  have "filter_enabled page_csharp" "rows_have_platforms page_csharp"
    "hasClass ''framework-row'' (page_csharp ! 6)"
    "getAttribute ''data-platforms'' (page_csharp ! 6) = Some ''''"
    by code_simp+
  moreover have "wantedPlatforms page_csharp = [Some ''C#'', Some ''Linux'']" by code_simp
  then have "Some ''C#'' \<in> set (wantedPlatforms page_csharp)" by simp
  moreover have "\<not> hasClass ''not-available'' (prepare_enabled page_csharp ! 6)" by code_simp
  ultimately show ?thesis by (simp add: page_csharp_throws)
qed

text \<open>
  Claim C10, amended. When the wanted platforms are class-name suffixes (ASCII letters,
  digits, \<^verbatim>\<open>_\<close> and \<^verbatim>\<open>-\<close>), then after a run of \<^verbatim>\<open>updatePlatforms\<close>,
  returned or thrown at a row, an element of class \<^verbatim>\<open>framework-platform\<close> carries
  \<^verbatim>\<open>framework-platform-required\<close> exactly when the filter is enabled and the
  element has the class of a wanted platform. The marker is removed from every such
  element first, so a run with the filter disabled leaves none marked, whatever the
  platforms are.
\<close>

theorem required_marking:
  assumes "getElementById ''platform-filter'' d = Some k"
    and "checked (d ! k) \<longrightarrow> wanted_selectable d"
  shows "\<exists>d'. final_state (updatePlatforms jq d) = Some d' \<and> length d' = length d \<and>
           (\<forall>i < length d. hasClass ''framework-platform'' (d ! i) \<longrightarrow>
              (hasClass ''framework-platform-required'' (d' ! i)
                 \<longleftrightarrow> checked (d ! k)
                      \<and> (\<exists>p \<in> set (wantedPlatforms d). cell_of_platform p (d ! i))))"
proof (cases "checked (d ! k)")
  case True
  let ?w = "wantedPlatforms d"
  let ?d3 = "map (required_step ?w) (prepare_enabled d)"
  let ?R = "\<lambda>e e'. e' = e \<or> (hasClass ''framework-row'' e \<and> mark_row ?w e = Inr e')"
  have en: "filter_enabled d" and sel: "wanted_selectable d"
    using True assms by (simp_all add: filter_cases)
  have "mark_required jq ?w (prepare_enabled d) = Done ?d3"
    using sel by (simp add: wanted_selectable_def mark_required_selectable)
  then have run: "updatePlatforms jq d = each_row ?w ?d3"
    using en by (simp add: updatePlatforms_enabled)
  define r where "r = state_of (each_row ?w ?d3)"
  have fin: "final_state (updatePlatforms jq d) = Some r"
    unfolding run r_def by (cases "each_row ?w ?d3") simp_all
  have rel: "list_all2 ?R ?d3 r"
    unfolding r_def by (rule each_row_state)
  have len: "length r = length d"
    using list_all2_lengthD [OF rel] by simp
  have "hasClass ''framework-platform-required'' (r ! i)
          \<longleftrightarrow> (\<exists>p \<in> set ?w. cell_of_platform p (d ! i))"
    if i: "i < length d" and cell: "hasClass ''framework-platform'' (d ! i)" for i
  proof -
    let ?e = "required_step ?w (prepare_enabled d ! i)"
    have "?R ?e (r ! i)"
      using list_all2_nthD [OF rel, of i] i by simp
    then have "hasClass ''framework-platform-required'' (r ! i)
                 = hasClass ''framework-platform-required'' ?e"
      by (auto dest: mark_row_other_class [where c = "''framework-platform-required''"])
    also have "\<dots> = (\<exists>p \<in> set ?w. cell_of_platform p (d ! i))"
      using i cell by (auto simp: hasClass_required_step hasClass_prepare_enabled cell_of_platform_def)
    finally show ?thesis .
  qed
  with fin len True show ?thesis by simp
next
  case False
  then have "filter_disabled d"
    using assms(1) by (simp add: filter_cases)
  from updatePlatforms_disabled_eq [OF this, of jq] False show ?thesis
    by (simp add: hasClass_finish_disabled)
qed

theorem required_marking_witness:
  "getElementById ''platform-filter'' example_page = Some 1
   \<and> checked (example_page ! 1) \<and> wanted_selectable example_page
   \<and> hasClass ''framework-platform-required'' (example_page ! 9)
   \<and> (\<exists>d'. final_state (updatePlatforms no_extension example_page) = Some d'
          \<and> hasClass ''framework-platform-required'' (d' ! 7)
          \<and> \<not> hasClass ''framework-platform-required'' (d' ! 9))"
proof -
  have h1: "getElementById ''platform-filter'' example_page = Some 1" by code_simp
  have c: "checked (example_page ! 1)" by code_simp
  have h2: "wanted_selectable example_page" by code_simp
  have len: "length example_page = 13" by code_simp
  have w: "wantedPlatforms example_page = [Some ''Linux'']" by code_simp
  have cells: "hasClass ''framework-platform'' (example_page ! 7)"
    "hasClass ''framework-platform'' (example_page ! 9)"
    "hasClass ''framework-platform-required'' (example_page ! 9)"
    "cell_of_platform (Some ''Linux'') (example_page ! 7)"
    "\<not> cell_of_platform (Some ''Linux'') (example_page ! 9)"
    by code_simp+
  from required_marking [OF h1] h2 obtain d' where
    run: "final_state (updatePlatforms no_extension example_page) = Some d'" and
    marks: "\<forall>i < length example_page. hasClass ''framework-platform'' (example_page ! i) \<longrightarrow>
              (hasClass ''framework-platform-required'' (d' ! i)
                 \<longleftrightarrow> checked (example_page ! 1)
                      \<and> (\<exists>p \<in> set (wantedPlatforms example_page).
                            cell_of_platform p (example_page ! i)))"
    by blast
  from marks cells c have
    "hasClass ''framework-platform-required'' (d' ! 7)"
    "\<not> hasClass ''framework-platform-required'' (d' ! 9)"
    by (simp_all add: len w)
  with h1 c h2 cells(3) run show ?thesis by blast
qed

text \<open>
  Claim C10 as first stated, after every run, fails when a wanted platform is not a
  class-name suffix: with \<^verbatim>\<open>C#\<close> and \<^verbatim>\<open>Linux\<close> checked in this order, the run
  throws at line 33 on the first selector, and the Linux cell is left without the
  marker although the filter is enabled and Linux is wanted.
\<close>

theorem required_marking_counterexample:
  "getElementById ''platform-filter'' page_csharp = Some 0
   \<and> checked (page_csharp ! 0)
   \<and> hasClass ''framework-platform'' (page_csharp ! 5)
   \<and> Some ''Linux'' \<in> set (wantedPlatforms page_csharp)
   \<and> cell_of_platform (Some ''Linux'') (page_csharp ! 5)
   \<and> updatePlatforms no_extension page_csharp = Threw SyntaxError (prepare_enabled page_csharp)
   \<and> \<not> hasClass ''framework-platform-required''
         (state_of (updatePlatforms no_extension page_csharp) ! 5)"
proof -
  have "getElementById ''platform-filter'' page_csharp = Some 0" "checked (page_csharp ! 0)"
    "hasClass ''framework-platform'' (page_csharp ! 5)"
    "cell_of_platform (Some ''Linux'') (page_csharp ! 5)"
    by code_simp+
  moreover have "wantedPlatforms page_csharp = [Some ''C#'', Some ''Linux'']" by code_simp
  then have "Some ''Linux'' \<in> set (wantedPlatforms page_csharp)" by simp
  moreover have "\<not> hasClass ''framework-platform-required'' (prepare_enabled page_csharp ! 5)"
    by code_simp
  ultimately show ?thesis by (simp add: page_csharp_throws)
qed

section \<open>The maintainer column\<close>

text \<open>
  Claim C8. On a page that has the \<^verbatim>\<open>showMaintainers\<close> checkbox, \<^verbatim>\<open>main\<close>
  returns, and from then on, after any sequence of clicks on checkboxes, each flipping
  the checkbox and running the handlers \<^verbatim>\<open>main\<close> bound to it, every element of
  class \<^verbatim>\<open>framework-maintainer-column\<close> is displayed exactly when the checkbox is
  checked. The empty sequence is the page right after page-ready; the checkbox is
  checked or not according to how often it was clicked. The filter panel, which
  \<^verbatim>\<open>updatePlatforms\<close> shows and hides, is taken not to be an element of the
  maintainer column.
\<close>

theorem maintainers_follow_checkbox:
  assumes "getElementById ''showMaintainers'' d = Some m" "panel_apart d"
  shows "\<exists>p0 p. main (page_loaded d) = Done p0 \<and> p = checkbox_clicks jq ks p0
           \<and> length (doc p) = length d
           \<and> getElementById ''showMaintainers'' (doc p) = Some m
           \<and> checked (doc p ! m) = (checked (d ! m) \<noteq> odd (count_list ks m))
           \<and> (\<forall>i < length d.
                 hasClass ''framework-maintainer-column'' (doc p ! i)
                   = hasClass ''framework-maintainer-column'' (d ! i)
                 \<and> (hasClass ''framework-maintainer-column'' (d ! i) \<longrightarrow>
                      (displayed (doc p ! i) \<longleftrightarrow> checked (doc p ! m))))"
proof -
  obtain p0 rest where p0: "main (page_loaded d) = Done p0" "page_kept d p0 p0"
    "columns_follow m (doc p0)" "checked (doc p0 ! m) = checked (d ! m)"
    "handlers_of m p0 = UpdateMaintainers # rest"
    using main_ready [OF assms(1)] by blast
  let ?p = "checkbox_clicks jq ks p0"
  from checkbox_clicks_kept [OF assms p0(5) p0(2,3), of jq ks]
  have kept: "page_kept d p0 ?p" and follow: "columns_follow m (doc ?p)"
    and chk: "checked (doc ?p ! m) = (checked (doc p0 ! m) \<noteq> odd (count_list ks m))"
    by simp_all
  have len: "length (doc ?p) = length d"
    using kept by (simp add: page_kept_def)
  have cls: "hasClass ''framework-maintainer-column'' (doc ?p ! i)
               = hasClass ''framework-maintainer-column'' (d ! i)" if "i < length d" for i
    using kept that by (intro map_eq_nth) (simp_all add: page_kept_def)
  have "hasClass ''framework-maintainer-column'' (doc ?p ! i)
          = hasClass ''framework-maintainer-column'' (d ! i)
        \<and> (hasClass ''framework-maintainer-column'' (d ! i) \<longrightarrow>
             (displayed (doc ?p ! i) \<longleftrightarrow> checked (doc ?p ! m)))" if "i < length d" for i
    using cls [OF that] follow that len by (simp add: columns_follow_nth)
  then show ?thesis
    using p0(1,4) len chk page_kept_checkbox [OF kept assms(1)]
    by (intro exI [of _ p0] exI [of _ ?p]) simp
qed

theorem maintainers_follow_checkbox_witness:
  "getElementById ''showMaintainers'' example_page = Some 0 \<and> panel_apart example_page
   \<and> checked (example_page ! 0) \<and> hasClass ''framework-maintainer-column'' (example_page ! 6)
   \<and> (\<exists>p0 p. main (page_loaded example_page) = Done p0
          \<and> p = checkbox_clicks no_extension [0, 1, 3, 0, 0] p0
          \<and> \<not> checked (doc p ! 0) \<and> \<not> displayed (doc p ! 6))"
proof -
  have h1: "getElementById ''showMaintainers'' example_page = Some 0" by code_simp
  have h2: "panel_apart example_page" by code_simp
  have c: "checked (example_page ! 0)" by code_simp
  have col: "hasClass ''framework-maintainer-column'' (example_page ! 6)" by code_simp
  have i6: "6 < length example_page" by code_simp
  from maintainers_follow_checkbox [OF h1 h2, of no_extension "[0, 1, 3, 0, 0]"]
  obtain p0 p where
    run: "main (page_loaded example_page) = Done p0"
      "p = checkbox_clicks no_extension [0, 1, 3, 0, 0] p0" and
    box: "checked (doc p ! 0) = (checked (example_page ! 0) \<noteq> odd (count_list [0, 1, 3, 0, 0] (0::nat)))" and
    cols: "\<forall>i < length example_page.
             hasClass ''framework-maintainer-column'' (doc p ! i)
               = hasClass ''framework-maintainer-column'' (example_page ! i)
             \<and> (hasClass ''framework-maintainer-column'' (example_page ! i) \<longrightarrow>
                  (displayed (doc p ! i) \<longleftrightarrow> checked (doc p ! 0)))"
    by blast
  have off: "\<not> checked (doc p ! 0)"
    using box c by simp
  moreover have "\<not> displayed (doc p ! 6)"
    using cols [rule_format, OF i6] col off by simp
  ultimately show ?thesis using h1 h2 c col run by blast
qed

section \<open>The note tooltip as a state machine\<close>

text \<open>
  Claim C5. After page-ready and any sequence of clicks and tooltip hide events, the
  tooltip exists and the described-element reference is an element exactly when the
  tooltip is shown, and then the tooltip is anchored to that element. "Non-null" is
  read with the script's own comparison, under which \<^verbatim>\<open>undefined\<close> equals
  \<^verbatim>\<open>null\<close>: the reference is \<^verbatim>\<open>undefined\<close> before the first click and
  \<^verbatim>\<open>null\<close> after a hide, and in both cases the tooltip is hidden.
\<close>

theorem described_element_iff_shown:
  "\<exists>p t. page_after d evs = Some p \<and> g_noteTip p = Some t
         \<and> (g_currentlyDescribedElement p \<in> {Undefined, Null} \<longleftrightarrow> tip_anchor t = None)
         \<and> (\<forall>e. g_currentlyDescribedElement p = Element e \<longleftrightarrow> tip_anchor t = Some e)"
proof -
  obtain p where p: "page_after d evs = Some p" "tip_invariant p"
    using page_after_invariant by blast
  then obtain t where t: "g_noteTip p = Some t"
    by (auto simp: tip_invariant_def split: option.splits)
  have "(g_currentlyDescribedElement p \<in> {Undefined, Null} \<longleftrightarrow> tip_anchor t = None)
        \<and> (\<forall>e. g_currentlyDescribedElement p = Element e \<longleftrightarrow> tip_anchor t = Some e)"
    using p(2) t by (auto simp: tip_invariant_def tip_consistent_def split: jsref.splits)
  with p(1) t show ?thesis by (intro exI [of _ p] exI [of _ t]) simp
qed

theorem described_element_iff_shown_witness:
  "\<exists>p t. page_after example_page [NoteLinkClick 8, NoteLinkClick 10, TipHide, NoteLinkClick 8]
             = Some p
         \<and> g_noteTip p = Some t
         \<and> (g_currentlyDescribedElement p \<in> {Undefined, Null} \<longleftrightarrow> tip_anchor t = None)
         \<and> (\<forall>e. g_currentlyDescribedElement p = Element e \<longleftrightarrow> tip_anchor t = Some e)"
  by (rule described_element_iff_shown)

text \<open>
  Claim C6. In a state reached from page-ready where an element is the described one,
  a click on that element returns with the tooltip hidden and the reference
  \<^verbatim>\<open>null\<close>, set by the \<^verbatim>\<open>onHide\<close> callback.
\<close>

theorem reclick_hides_tooltip:
  assumes "page_after d evs = Some p" "g_currentlyDescribedElement p = Element e"
  shows "\<exists>p' t. step (NoteLinkClick e) p = Done p'
           \<and> g_currentlyDescribedElement p' = Null
           \<and> g_noteTip p' = Some t \<and> tip_anchor t = None"
proof -
  have inv: "tip_invariant p"
    using page_after_invariant [of d evs] assms(1) by simp
  then have "(e, NoteLinkClicked) \<in> set (click_handlers p)"
    using assms(2) by (simp add: tip_invariant_def)
  then show ?thesis
    using note_click_same [OF inv assms(2)] by auto
qed

theorem reclick_hides_tooltip_witness:
  "\<exists>p. page_after example_page [NoteLinkClick 8] = Some p
       \<and> g_currentlyDescribedElement p = Element 8
       \<and> (\<exists>p' t. step (NoteLinkClick 8) p = Done p'
             \<and> g_currentlyDescribedElement p' = Null
             \<and> g_noteTip p' = Some t \<and> tip_anchor t = None)"
proof -
  have "map_option g_currentlyDescribedElement (page_after example_page [NoteLinkClick 8])
          = Some (Element 8)"
    by code_simp
  then obtain p where p: "page_after example_page [NoteLinkClick 8] = Some p"
    "g_currentlyDescribedElement p = Element 8"
    by auto
  from reclick_hides_tooltip [OF p] p show ?thesis by blast
qed

text \<open>
  Claim C7. In a state reached from page-ready, a click on a note link that is not the
  described element returns with the tooltip's text the link's \<^verbatim>\<open>data-note\<close>
  attribute, the tooltip shown anchored to the link, and the link the described
  element, whether the tooltip was hidden or shown for another element before.
\<close>

theorem click_shows_note:
  assumes "page_after d evs = Some p" "(e, NoteLinkClicked) \<in> set (click_handlers p)"
    "g_currentlyDescribedElement p \<noteq> Element e"
  shows "\<exists>p' t. step (NoteLinkClick e) p = Done p'
           \<and> g_currentlyDescribedElement p' = Element e
           \<and> g_noteTip p' = Some t
           \<and> tip_text t = getAttribute ''data-note'' (doc p ! e)
           \<and> tip_anchor t = Some e
           \<and> e < length (doc p)"
proof -
  have inv: "tip_invariant p"
    using page_after_invariant [of d evs] assms(1) by simp
  show ?thesis
    using note_click_other [OF inv assms(3,2)] assms(2) by auto
qed

theorem click_shows_note_witness:
  "\<exists>p. page_after example_page [NoteLinkClick 10] = Some p
       \<and> (8, NoteLinkClicked) \<in> set (click_handlers p)
       \<and> g_currentlyDescribedElement p = Element 10
       \<and> (\<exists>p' t. step (NoteLinkClick 8) p = Done p'
             \<and> g_currentlyDescribedElement p' = Element 8
             \<and> g_noteTip p' = Some t
             \<and> tip_text t = Some ''Needs X11''
             \<and> tip_anchor t = Some 8)"
proof -
  have "map_option (\<lambda>p. (List.member (click_handlers p) (8, NoteLinkClicked),
                          g_currentlyDescribedElement p,
                          getAttribute ''data-note'' (doc p ! 8)))
          (page_after example_page [NoteLinkClick 10])
        = Some (True, Element 10, Some ''Needs X11'')"
    by code_simp
  then obtain p where p: "page_after example_page [NoteLinkClick 10] = Some p"
    "(8, NoteLinkClicked) \<in> set (click_handlers p)"
    "g_currentlyDescribedElement p = Element 10"
    "getAttribute ''data-note'' (doc p ! 8) = Some ''Needs X11''"
    by auto
  have other: "g_currentlyDescribedElement p \<noteq> Element 8"
    using p(3) by simp
  from click_shows_note [OF p(1,2) other] obtain p' t where
    "step (NoteLinkClick 8) p = Done p'" "g_currentlyDescribedElement p' = Element 8"
    "g_noteTip p' = Some t" "tip_text t = getAttribute ''data-note'' (doc p ! 8)"
    "tip_anchor t = Some 8"
    by blast
  with p show ?thesis by (intro exI [of _ p]) auto
qed

end
